theory Spec2Isabelle
  imports Complex_Main "HOL-Library.AList"
begin

section \<open>JavaScript values and errors\<close>

text \<open>
  The CV-analysis pipeline of the job portal: \<open>services/openai.service.js\<close> (the AI
  client), the \<open>CVAnalysis\<close> model and \<open>controllers/cv-analyzer.controller.js\<close>.

  A JSON number is a double. \<open>JSON.parse\<close> never yields NaN, but it does yield an
  infinity for a literal that overflows, so the numbers are the reals with the two
  infinities. Only comparisons are taken on them (\<open>Math.min\<close>, \<open>Math.max\<close>), which
  rounding does not disturb.
\<close>

datatype jsnum = NegInf | Fin real | PosInf

datatype json =
    JNull
  | JBool bool
  | JNum jsnum
  | JStr string
  | JArr "json list"
  | JObj "(string \<times> json) list"

fun jsnum_le :: "jsnum \<Rightarrow> jsnum \<Rightarrow> bool" where
  "jsnum_le NegInf _ = True"
| "jsnum_le _ PosInf = True"
| "jsnum_le (Fin a) (Fin b) = (a \<le> b)"
| "jsnum_le _ _ = False"

definition Math_min :: "jsnum \<Rightarrow> jsnum \<Rightarrow> jsnum" where
  "Math_min a b = (if jsnum_le a b then a else b)"

definition Math_max :: "jsnum \<Rightarrow> jsnum \<Rightarrow> jsnum" where
  "Math_max a b = (if jsnum_le a b then b else a)"

text \<open>JavaScript truthiness of a value read from a parsed document.\<close>

fun truthy :: "json \<Rightarrow> bool" where
  "truthy JNull = False"
| "truthy (JBool b) = b"
| "truthy (JNum n) = (n \<noteq> Fin 0)"
| "truthy (JStr s) = (s \<noteq> [])"
| "truthy (JArr _) = True"
| "truthy (JObj _) = True"

text \<open>
  What the code throws: an error of the API client (with its HTTP status, absent for a
  network error or a timeout), a plain \<open>Error\<close> or \<open>TypeError\<close>, and the service's own
  \<open>OpenAIServiceError(message, originalError)\<close>.
\<close>

datatype js_error =
    ApiFailure "nat option" string
  | PlainError string
  | OpenAIServiceError string "js_error option"

fun error_message :: "js_error \<Rightarrow> string" where
  "error_message (ApiFailure _ m) = m"
| "error_message (PlainError m) = m"
| "error_message (OpenAIServiceError m _) = m"

fun error_status :: "js_error \<Rightarrow> nat option" where
  "error_status (ApiFailure s _) = s"
| "error_status _ = None"

text \<open>Decimal digits of a number, for the template strings of the messages.\<close>

function show_nat :: "nat \<Rightarrow> string" where
  "show_nat n = (if n < 10 then [''0123456789'' ! n]
                 else show_nat (n div 10) @ [''0123456789'' ! (n mod 10)])"
  by pat_completeness auto
termination
  by (relation "measure id") auto

declare show_nat.simps [simp del]

section \<open>The AI client\<close>

subsection \<open>Configuration and the retry loop\<close>

record service_config =
  model :: string
  retryAttempts :: nat
  retryDelay :: nat
  maxRetryDelay :: nat

text \<open>
  The constructor: the model name comes from the environment (\<open>gpt-4o\<close> when the
  variable is unset or empty), the retry settings are the constants of the source.
\<close>

definition OpenAIService_new :: "string option \<Rightarrow> service_config" where
  "OpenAIService_new env_model =
     \<lparr> model = (case env_model of None \<Rightarrow> ''gpt-4o''
                 | Some m \<Rightarrow> if m = [] then ''gpt-4o'' else m),
       retryAttempts = 3,
       retryDelay = 1000,
       maxRetryDelay = 30000 \<rparr>"

text \<open>\<open>isNonRetryableError\<close>: the status is present, non-zero and one of the five listed.\<close>

definition isNonRetryableError :: "js_error \<Rightarrow> bool" where
  "isNonRetryableError e =
     (case error_status e of None \<Rightarrow> False
      | Some s \<Rightarrow> s \<noteq> 0 \<and> s \<in> set [400, 401, 403, 404, 422])"

text \<open>
  The message of one choice of a completion, \<open>None\<close> when the message or its content
  is missing or null, and the usage block of the response.
\<close>

record api_response =
  choices :: "string option list"
  total_tokens :: "nat option"

text \<open>
  The outcome of \<open>makeAPICallWithRetry\<close> together with what it did to the outside: how
  many calls it made to the API and which delays it slept, in order.
\<close>

record retry_outcome =
  outcome :: "js_error + api_response"
  calls_made :: nat
  delays :: "nat list"

text \<open>
  The remote API is a function of the number of calls already made: the request is the
  same at every attempt. The loop of \<open>makeAPICallWithRetry\<close> runs from \<open>attempt\<close>;
  \<open>lastError\<close> and the delays slept so far are carried along.
\<close>

function retry_loop ::
  "service_config \<Rightarrow> (nat \<Rightarrow> js_error + api_response) \<Rightarrow> nat \<Rightarrow> js_error option \<Rightarrow> nat list
     \<Rightarrow> retry_outcome" where
  "retry_loop cfg api attempt lastError slept =
     (if attempt < retryAttempts cfg then
        (case api attempt of
           Inr response \<Rightarrow>
             \<lparr> outcome = Inr response, calls_made = Suc attempt, delays = slept \<rparr>
         | Inl error \<Rightarrow>
             if isNonRetryableError error then
               \<lparr> outcome = Inl error, calls_made = Suc attempt, delays = slept \<rparr>
             else if attempt < retryAttempts cfg - 1 then
               retry_loop cfg api (Suc attempt) (Some error)
                 (slept @ [min (retryDelay cfg * 2 ^ attempt) (maxRetryDelay cfg)])
             else retry_loop cfg api (Suc attempt) (Some error) slept)
      else
        \<lparr> outcome = Inl (OpenAIServiceError
             (''OpenAI API failed after '' @ show_nat (retryAttempts cfg) @ '' attempts'')
             lastError),
          calls_made = attempt, delays = slept \<rparr>)"
  by pat_completeness auto
termination
  by (relation "measure (\<lambda>(cfg, api, attempt, lastError, slept). retryAttempts cfg - attempt)")
     auto

declare retry_loop.simps [simp del]

definition makeAPICallWithRetry ::
  "service_config \<Rightarrow> (nat \<Rightarrow> js_error + api_response) \<Rightarrow> retry_outcome" where
  "makeAPICallWithRetry cfg api = retry_loop cfg api 0 None []"

subsection \<open>Parsing and validating the response\<close>

text \<open>
  \<open>content.match(/\{[\s\S]*\}/)\<close>: the match starts at the first opening brace and,
  the star being greedy, ends at the last closing brace after it; there is no match
  when no closing brace follows the first opening one.
\<close>

definition jsonMatch :: "string \<Rightarrow> string option" where
  "jsonMatch content =
     (let from_brace = dropWhile (\<lambda>c. c \<noteq> CHR ''{'') content
      in if CHR ''}'' \<in> set from_brace
         then Some (rev (dropWhile (\<lambda>c. c \<noteq> CHR ''}'') (rev from_brace)))
         else None)"

text \<open>\<open>createFallbackStructure\<close>; \<open>substring(0, 500)\<close> is \<open>take 500\<close>.\<close>

definition createFallbackStructure :: "string \<Rightarrow> json" where
  "createFallbackStructure content = JObj
     [(''overallScore'', JNum (Fin 75)),
      (''summary'', JObj
         [(''strengths'', JStr ''CV analysis completed''),
          (''areasOfImprovement'', JStr ''Please review the detailed analysis''),
          (''keyFindings'', JStr (take 500 content @ ''...''))]),
      (''sections'', JObj [(''analysis'', JStr content)]),
      (''recommendations'', JArr
         [JObj [(''priority'', JStr ''medium''),
                (''category'', JStr ''general''),
                (''suggestion'', JStr ''Please review the detailed analysis provided''),
                (''impact'', JStr ''General improvements recommended'')]]),
      (''jobMatching'', JObj [(''compatibility'', JNum (Fin 75))]),
      (''marketInsights'', JObj [(''analysis'', JStr ''Market analysis included in content'')])]"

text \<open>
  Where the value handed to the validation came from. The source does not return this
  tag (it logs a different console line on each path); the model keeps it so that
  the path taken can be stated, and \<open>parseAndValidateResponse\<close> drops it.
\<close>

datatype parse_path = Direct | Embedded | Fallback

text \<open>
  \<open>JSON.parse\<close> is the language's own function and is a parameter here: \<open>None\<close> is the
  \<open>SyntaxError\<close> it throws. \<open>extractJsonFromContent\<close> parses the match, and builds the
  fallback structure when there is no match or when parsing the match throws.
\<close>

definition extractJsonFromContent :: "(string \<Rightarrow> json option) \<Rightarrow> string \<Rightarrow> parse_path \<times> json" where
  "extractJsonFromContent JSON_parse content =
     (case jsonMatch content of
        Some matched \<Rightarrow>
          (case JSON_parse matched of
             Some parsed \<Rightarrow> (Embedded, parsed)
           | None \<Rightarrow> (Fallback, createFallbackStructure content))
      | None \<Rightarrow> (Fallback, createFallbackStructure content))"

text \<open>
  The named properties of a value on which \<open>'overallScore' in response\<close> can be
  evaluated: those of an object; none of the names used here for an array. On null
  and on a primitive the \<open>in\<close> operator throws a \<open>TypeError\<close> (its message is the
  engine's and is abbreviated here).
\<close>

fun named_properties :: "json \<Rightarrow> (string \<times> json) list option" where
  "named_properties (JObj kvs) = Some kvs"
| "named_properties (JArr _) = Some []"
| "named_properties _ = None"

definition default_summary :: json where
  "default_summary = JObj
     [(''strengths'', JStr ''Analysis completed''),
      (''areasOfImprovement'', JStr ''Review recommendations''),
      (''keyFindings'', JStr ''CV analysis completed successfully'')]"

text \<open>\<open>if (!response.f) response.f = d\<close> on the property list.\<close>

definition default_if_falsy :: "string \<Rightarrow> json \<Rightarrow> (string \<times> json) list \<Rightarrow> (string \<times> json) list" where
  "default_if_falsy f d props =
     (case map_of props f of
        None \<Rightarrow> AList.update f d props
      | Some v \<Rightarrow> if truthy v then props else AList.update f d props)"

text \<open>
  \<open>validateResponseStructure\<close> mutates the response in place; the model returns the
  named properties the value has afterwards. The steps follow the source in order:
  the missing \<open>overallScore\<close> and the five defaults, then the clamp of the score.
\<close>

definition fill_defaults :: "(string \<times> json) list \<Rightarrow> (string \<times> json) list" where
  "fill_defaults props =
     (let p1 = (if map_of props ''overallScore'' = None
                then AList.update ''overallScore'' (JNum (Fin 75)) props else props);
          p2 = default_if_falsy ''summary'' default_summary p1;
          p3 = default_if_falsy ''sections'' (JObj []) p2;
          p4 = default_if_falsy ''recommendations'' (JArr []) p3;
          p5 = default_if_falsy ''jobMatching'' (JObj []) p4
      in default_if_falsy ''marketInsights'' (JObj []) p5)"

definition clamp_overallScore :: "(string \<times> json) list \<Rightarrow> (string \<times> json) list" where
  "clamp_overallScore props =
     (case map_of props ''overallScore'' of
        Some (JNum x) \<Rightarrow>
          AList.update ''overallScore'' (JNum (Math_max (Fin 0) (Math_min (Fin 100) x))) props
      | _ \<Rightarrow> AList.update ''overallScore'' (JNum (Fin 75)) props)"

definition validateResponseStructure :: "json \<Rightarrow> js_error + (string \<times> json) list" where
  "validateResponseStructure response =
     (case named_properties response of
        None \<Rightarrow> Inl (PlainError ''TypeError: cannot use the in operator on this value'')
      | Some props \<Rightarrow> Inr (clamp_overallScore (fill_defaults props)))"

text \<open>
  \<open>parseAndValidateResponse\<close>, with the path kept. \<open>response.choices[0]?.message?.content\<close>
  is undefined when there is no first choice; an undefined, null or empty content
  throws, and every error is rethrown as an \<open>OpenAIServiceError\<close>.
\<close>

definition first_content :: "api_response \<Rightarrow> string option" where
  "first_content response = (case choices response of [] \<Rightarrow> None | c # _ \<Rightarrow> c)"

definition parse_step ::
  "(string \<Rightarrow> json option) \<Rightarrow> api_response \<Rightarrow> js_error + parse_path \<times> (string \<times> json) list" where
  "parse_step JSON_parse response =
     (case first_content response of
        None \<Rightarrow> Inl (OpenAIServiceError ''Invalid response format from OpenAI''
                        (Some (PlainError ''Empty response from OpenAI'')))
      | Some content \<Rightarrow>
          if content = [] then
            Inl (OpenAIServiceError ''Invalid response format from OpenAI''
                   (Some (PlainError ''Empty response from OpenAI'')))
          else
            let (path, parsed) =
                  (case JSON_parse content of
                     Some parsed \<Rightarrow> (Direct, parsed)
                   | None \<Rightarrow> extractJsonFromContent JSON_parse content)
            in (case validateResponseStructure parsed of
                  Inl error \<Rightarrow>
                    Inl (OpenAIServiceError ''Invalid response format from OpenAI'' (Some error))
                | Inr validated \<Rightarrow> Inr (path, validated)))"

definition parseAndValidateResponse ::
  "(string \<Rightarrow> json option) \<Rightarrow> api_response \<Rightarrow> js_error + (string \<times> json) list" where
  "parseAndValidateResponse JSON_parse response =
     (case parse_step JSON_parse response of
        Inl error \<Rightarrow> Inl error
      | Inr (path, validated) \<Rightarrow> Inr validated)"

subsection \<open>The analysis call\<close>

text \<open>
  The state of the service object that outlives a call: the tokens and requests it has
  counted. \<open>trackUsage\<close> adds \<open>usage.total_tokens || 0\<close> when the response has a usage
  block.
\<close>

record service_state =
  tokensUsed :: nat
  requestCount :: nat

definition trackUsage :: "nat option \<Rightarrow> service_state \<Rightarrow> service_state" where
  "trackUsage usage svc =
     (case usage of None \<Rightarrow> svc | Some t \<Rightarrow> svc\<lparr>tokensUsed := tokensUsed svc + t\<rparr>)"

text \<open>
  \<open>analyzeCVComprehensive\<close>: the call with retries, then the parse step, then the usage.
  \<open>requestCount\<close> is incremented by the one call that succeeded. Building the prompt
  is string formatting that cannot throw on a stored record and is left out: the
  request is the same at every attempt, which is all the API function depends on.
  Besides its result and the state of the service, the function gives what its one
  invocation of \<open>makeAPICallWithRetry\<close> did to the outside: the calls made and the
  delays slept.
\<close>

record client_call =
  c_returned :: "js_error + (string \<times> json) list"
  c_service :: service_state
  c_attempts :: nat
  c_slept :: "nat list"

definition analyzeCVComprehensive ::
  "service_config \<Rightarrow> (string \<Rightarrow> json option) \<Rightarrow> (nat \<Rightarrow> js_error + api_response) \<Rightarrow> service_state
     \<Rightarrow> client_call" where
  "analyzeCVComprehensive cfg JSON_parse api svc =
     (let r = makeAPICallWithRetry cfg api
      in case outcome r of
        Inl error \<Rightarrow>
          \<lparr> c_returned = Inl (OpenAIServiceError ''CV analysis failed'' (Some error)),
            c_service = svc, c_attempts = calls_made r, c_slept = delays r \<rparr>
      | Inr response \<Rightarrow>
          let svc1 = svc\<lparr>requestCount := Suc (requestCount svc)\<rparr>
          in (case parseAndValidateResponse JSON_parse response of
                Inl error \<Rightarrow>
                  \<lparr> c_returned = Inl (OpenAIServiceError ''CV analysis failed'' (Some error)),
                    c_service = svc1, c_attempts = calls_made r, c_slept = delays r \<rparr>
              | Inr result \<Rightarrow>
                  \<lparr> c_returned = Inr result,
                    c_service = trackUsage (total_tokens response) svc1,
                    c_attempts = calls_made r, c_slept = delays r \<rparr>))"

text \<open>
  What \<open>analyzeCV\<close> hands to the controller. A property the validated value does not
  have is \<open>undefined\<close>, here \<open>None\<close>. Of \<open>openaiProcessing\<close> the model name and the token
  count are kept; the elapsed wall-clock time and the floating-point cost estimate are
  not modelled. \<open>analyzeCV\<close> calls \<open>analyzeCVComprehensive\<close> once, and the calls and delays
  of that one call are those of \<open>analyzeCV\<close>.
\<close>

record openai_processing =
  op_model :: string
  op_tokensUsed :: nat

record ai_result =
  r_overallScore :: "json option"
  r_summary :: "json option"
  r_sections :: "json option"
  r_recommendations :: "json option"
  r_jobMatching :: "json option"
  r_marketInsights :: "json option"
  r_openaiProcessing :: openai_processing

record analysis_call =
  a_result :: "js_error + ai_result"
  a_service :: service_state
  a_calls :: nat
  a_waits :: "nat list"

definition analyzeCV ::
  "service_config \<Rightarrow> (string \<Rightarrow> json option) \<Rightarrow> (nat \<Rightarrow> js_error + api_response) \<Rightarrow> service_state
     \<Rightarrow> analysis_call" where
  "analyzeCV cfg JSON_parse api svc =
     (let c = analyzeCVComprehensive cfg JSON_parse api svc
      in \<lparr> a_result =
             (case c_returned c of
                Inl error \<Rightarrow> Inl (OpenAIServiceError ''CV analysis failed'' (Some error))
              | Inr result \<Rightarrow>
                  Inr \<lparr> r_overallScore = map_of result ''overallScore'',
                        r_summary = map_of result ''summary'',
                        r_sections = map_of result ''sections'',
                        r_recommendations = map_of result ''recommendations'',
                        r_jobMatching = map_of result ''jobMatching'',
                        r_marketInsights = map_of result ''marketInsights'',
                        r_openaiProcessing =
                          \<lparr> op_model = model cfg,
                            op_tokensUsed = tokensUsed (c_service c) \<rparr> \<rparr>),
           a_service = c_service c,
           a_calls = c_attempts c,
           a_waits = c_slept c \<rparr>)"

section \<open>The analysis records\<close>

text \<open>
  The \<open>CVAnalysis\<close> schema. \<open>processingStatus\<close> is a string restricted to four values;
  the code only ever assigns the literals. Identifiers of users and records are
  well-formed ObjectIds, here numbers, and dates are numbers. The view counters, the
  version and the \<open>updatedAt\<close> stamp play no part in the pipeline and are left out.
\<close>

datatype processing_status = Pending | Processing | Completed | Failed

fun status_name :: "processing_status \<Rightarrow> string" where
  "status_name Pending = ''pending''"
| "status_name Processing = ''processing''"
| "status_name Completed = ''completed''"
| "status_name Failed = ''failed''"

record job_data =
  experienceLevel :: string
  major :: string
  targetJobTitle :: "string option"

record processing_stage =
  stage :: string
  stage_status :: string
  startTime :: "nat option"
  endTime :: "nat option"
  stage_error :: "string option"

text \<open>
  All paths but \<open>extractedText\<close> first, and the full document as their extension: the
  history query selects \<open>-extractedText\<close>, which is the truncation to the first record.
\<close>

record analysis_fields =
  userId :: nat
  originalFilename :: string
  filePath :: string
  fileSize :: nat
  jobData :: job_data
  overallScore :: "json option"
  summary :: "json option"
  sections :: json
  recommendations :: json
  jobMatching :: json
  marketInsights :: json
  processingStatus :: processing_status
  errorMessage :: "string option"
  processingStages :: "processing_stage list"
  openaiProcessing :: "openai_processing option"
  isActive :: bool
  deletedAt :: "nat option"
  createdAt :: nat

record cv_analysis = analysis_fields +
  extractedText :: string

text \<open>
  \<open>String.prototype.trim\<close> and the \<open>trim: true\<close> setter of the schema. A character
  stands for a code unit below 256, and the white space and line terminators of
  JavaScript in that range are the tab, the line feed, the vertical tab, the form feed,
  the carriage return, the space and the no-break space U+00A0.
\<close>

definition is_space :: "char \<Rightarrow> bool" where
  "is_space c =
     (c \<in> set [CHR '' '', CHR 0x09, CHR 0x0A, CHR 0x0B, CHR 0x0C, CHR 0x0D, CHR 0xA0])"

definition trim :: "string \<Rightarrow> string" where
  "trim s = rev (dropWhile is_space (rev (dropWhile is_space s)))"

subsection \<open>Instance methods of the model\<close>

text \<open>
  Each method changes the document and saves it; the functions give the document that
  is saved. \<open>now\<close> is \<open>new Date()\<close>.
\<close>

definition markAsCompleted :: "nat \<Rightarrow> cv_analysis \<Rightarrow> cv_analysis" where
  "markAsCompleted now a =
     a\<lparr> processingStatus := Completed,
        processingStages :=
          map (\<lambda>s. if stage_status s = ''in-progress''
                    then s\<lparr>stage_status := ''completed'', endTime := Some now\<rparr> else s)
              (processingStages a) \<rparr>"

text \<open>\<open>find\<close> takes the first stage in progress, and only that one is changed.\<close>

fun fail_current_stage :: "nat \<Rightarrow> string \<Rightarrow> processing_stage list \<Rightarrow> processing_stage list" where
  "fail_current_stage now msg [] = []"
| "fail_current_stage now msg (s # ss) =
     (if stage_status s = ''in-progress''
      then s\<lparr>stage_status := ''failed'', endTime := Some now, stage_error := Some msg\<rparr> # ss
      else s # fail_current_stage now msg ss)"

definition markAsFailed :: "nat \<Rightarrow> js_error \<Rightarrow> cv_analysis \<Rightarrow> cv_analysis" where
  "markAsFailed now error a =
     a\<lparr> processingStatus := Failed,
        processingStages := fail_current_stage now (error_message error) (processingStages a) \<rparr>"

definition softDelete :: "nat \<Rightarrow> cv_analysis \<Rightarrow> cv_analysis" where
  "softDelete now a = a\<lparr> isActive := False, deletedAt := Some now \<rparr>"

subsection \<open>The collection and the outside world\<close>

text \<open>
  The collection is the list of the stored documents with their \<open>_id\<close>, in insertion
  order. The world of the controller is the collection, the paths of the files on disk,
  the state of the one service object, and what the remote API and the timer have seen
  of the process so far: the number of calls received and the delays slept, in order.
\<close>

type_synonym collection = "(nat \<times> cv_analysis) list"

record world =
  store :: collection
  files :: "string set"
  service :: service_state
  api_calls :: nat
  api_delays :: "nat list"

text \<open>\<open>CVAnalysis.findOne({ _id, userId })\<close>.\<close>

definition findOne_owned :: "collection \<Rightarrow> nat \<Rightarrow> nat \<Rightarrow> cv_analysis option" where
  "findOne_owned st analysisId uid =
     (case map_of st analysisId of
        None \<Rightarrow> None
      | Some a \<Rightarrow> if userId a = uid then Some a else None)"

text \<open>
  \<open>markAnalysisAsFailed\<close> of the controller: \<open>findByIdAndUpdate\<close> with the status and the
  message, whatever the document holds, and nothing when there is no such document.
  The update runs the \<open>trim\<close> setter of the path and no validator. When the update
  throws (\<open>update_throws\<close>: the store refuses it), the \<open>catch\<close> of the function logs
  the error and the collection is as it was.
\<close>

definition markAnalysisAsFailed :: "bool \<Rightarrow> nat \<Rightarrow> string \<Rightarrow> collection \<Rightarrow> collection" where
  "markAnalysisAsFailed update_throws analysisId msg st =
     (if update_throws then st
      else case map_of st analysisId of
        None \<Rightarrow> st
      | Some a \<Rightarrow>
          AList.update analysisId
            (a\<lparr> processingStatus := Failed, errorMessage := Some (trim msg) \<rparr>) st)"

text \<open>
  The validators of the schema on the paths that are typed here, as \<open>save\<close> runs them;
  \<open>None\<close> when the document passes. The text of Mongoose's message is abbreviated. The
  documents the AI returns are carried as JSON and their validators are not part of
  this function: every function below takes the outcome of \<open>save\<close> as a parameter
  \<open>save_error\<close>, and this one serves where a concrete one is wanted.
\<close>

definition schema_validation :: "cv_analysis \<Rightarrow> string option" where
  "schema_validation a =
     (if originalFilename a \<noteq> [] \<and> length (originalFilename a) \<le> 255
         \<and> filePath a \<noteq> []
         \<and> extractedText a \<noteq> [] \<and> length (extractedText a) \<le> 50000
         \<and> experienceLevel (jobData a) \<in> set [''entry'', ''mid'', ''senior'', ''executive'']
         \<and> major (jobData a) \<noteq> [] \<and> length (major (jobData a)) \<le> 100
         \<and> (case targetJobTitle (jobData a) of None \<Rightarrow> True | Some t \<Rightarrow> length t \<le> 200)
         \<and> (case overallScore a of
               Some (JNum x) \<Rightarrow> jsnum_le (Fin 0) x \<and> jsnum_le x (Fin 100)
             | _ \<Rightarrow> True)
         \<and> (case errorMessage a of None \<Rightarrow> True | Some m \<Rightarrow> length m \<le> 500)
      then None
      else Some ''CVAnalysis validation failed'')"

section \<open>The controller\<close>

datatype payload =
    NoData
  | UploadAccepted nat processing_status string
  | AnalysisData nat cv_analysis
  | ReanalysisStarted nat processing_status
  | HistoryPage "(nat \<times> analysis_fields) list" nat

text \<open>
  The JSON bodies: \<open>success\<close>, \<open>message\<close> and \<open>data\<close>. The \<open>error\<close> member that only a
  development build fills is left out.
\<close>

record http_response =
  http_status :: nat
  success :: bool
  message :: "string option"
  payload :: payload

definition not_found :: http_response where
  "not_found = \<lparr> http_status = 404, success = False,
                  message = Some ''Analysis not found'', payload = NoData \<rparr>"

subsection \<open>Upload\<close>

record uploaded_file =
  originalname :: string
  path :: string
  size_bytes :: nat

record upload_request =
  u_user :: nat
  u_experienceLevel :: "string option"
  u_major :: "string option"
  u_targetJobTitle :: "string option"
  u_file :: "uploaded_file option"

text \<open>
  \<open>!x\<close> on a field of the body or of the query: undefined or the empty string. The
  string of a field is read only where the field has passed this test.
\<close>

definition falsy_field :: "string option \<Rightarrow> bool" where
  "falsy_field x = (case x of None \<Rightarrow> True | Some s \<Rightarrow> s = [])"

definition field_value :: "string option \<Rightarrow> string" where
  "field_value x = (case x of None \<Rightarrow> [] | Some s \<Rightarrow> s)"

text \<open>
  \<open>new CVAnalysis({...})\<close> as the upload writes it: the schema defaults, the setters, and
  the fields the controller passes, \<open>processingStatus: 'processing'\<close> among them in place
  of the schema's default \<open>'pending'\<close>.
\<close>

definition new_upload_document :: "upload_request \<Rightarrow> uploaded_file \<Rightarrow> nat \<Rightarrow> cv_analysis" where
  "new_upload_document req file now =
     \<lparr> userId = u_user req,
       originalFilename = trim (originalname file),
       filePath = trim (path file),
       fileSize = size_bytes file,
       jobData =
         \<lparr> experienceLevel = field_value (u_experienceLevel req),
           major = trim (field_value (u_major req)),
           targetJobTitle =
             (case u_targetJobTitle req of
                None \<Rightarrow> None
              | Some t \<Rightarrow> if trim t = [] then None else Some (trim t)) \<rparr>,
       overallScore = None,
       summary = None,
       sections = JObj [],
       recommendations = JArr [],
       jobMatching = JObj [],
       marketInsights = JObj [],
       processingStatus = Processing,
       errorMessage = None,
       processingStages = [],
       openaiProcessing = None,
       isActive = True,
       deletedAt = None,
       createdAt = now,
       extractedText = ''Processing...'' \<rparr>"

text \<open>
  \<open>uploadAndAnalyzeCV\<close>. It returns the response, the world, and the record for which
  the background analysis has been started (it has not written anything when the
  response is sent). \<open>new_id\<close> is the fresh ObjectId; an \<open>_id\<close> already in the collection
  makes the insert fail. A failed save removes the uploaded file and answers 500.
\<close>

definition uploadAndAnalyzeCV ::
  "(cv_analysis \<Rightarrow> string option) \<Rightarrow> nat \<Rightarrow> nat \<Rightarrow> world \<Rightarrow> upload_request
     \<Rightarrow> http_response \<times> world \<times> nat option" where
  "uploadAndAnalyzeCV save_error new_id now w req =
     (if falsy_field (u_experienceLevel req) \<or> falsy_field (u_major req) then
        (\<lparr> http_status = 400, success = False,
            message = Some ''Experience level and major are required'', payload = NoData \<rparr>,
         w, None)
      else case u_file req of
        None \<Rightarrow>
          (\<lparr> http_status = 400, success = False,
              message = Some ''No CV file uploaded'', payload = NoData \<rparr>, w, None)
      | Some file \<Rightarrow>
          let analysis = new_upload_document req file now
          in if save_error analysis \<noteq> None \<or> map_of (store w) new_id \<noteq> None then
               (\<lparr> http_status = 500, success = False,
                   message = Some ''Failed to upload and analyze CV'', payload = NoData \<rparr>,
                w\<lparr> files := files w - {path file} \<rparr>, None)
             else
               (\<lparr> http_status = 202, success = True,
                   message = Some ''CV uploaded successfully. Analysis is in progress.'',
                   payload = UploadAccepted new_id (processingStatus analysis) ''2-3 minutes'' \<rparr>,
                w\<lparr> store := store w @ [(new_id, analysis)] \<rparr>, Some new_id))"

subsection \<open>Results, reanalysis and deletion\<close>

text \<open>
  \<open>getAnalysisResults\<close>; the populated name and e-mail of the owner are not part of the
  payload here.
\<close>

definition getAnalysisResults :: "world \<Rightarrow> nat \<Rightarrow> nat \<Rightarrow> http_response" where
  "getAnalysisResults w uid analysisId =
     (case findOne_owned (store w) analysisId uid of
        None \<Rightarrow> not_found
      | Some analysis \<Rightarrow>
          \<lparr> http_status = 200, success = True, message = None,
            payload = AnalysisData analysisId analysis \<rparr>)"

record reanalyze_body =
  b_experienceLevel :: "string option"
  b_major :: "string option"
  b_targetJobTitle :: "string option"

text \<open>The update of \<open>jobData\<close> in \<open>reanalyzeCV\<close>, with the setter of \<open>major\<close>.\<close>

definition updated_jobData :: "reanalyze_body \<Rightarrow> job_data \<Rightarrow> job_data" where
  "updated_jobData body jd =
     (if \<not> falsy_field (b_experienceLevel body) \<or> \<not> falsy_field (b_major body)
         \<or> \<not> falsy_field (b_targetJobTitle body)
      then
        let jd1 = (if \<not> falsy_field (b_experienceLevel body)
                   then jd\<lparr>experienceLevel := field_value (b_experienceLevel body)\<rparr> else jd);
            jd2 = (if \<not> falsy_field (b_major body)
                   then jd1\<lparr>major := trim (field_value (b_major body))\<rparr> else jd1)
        in (case b_targetJobTitle body of
              None \<Rightarrow> jd2
            | Some t \<Rightarrow> if trim t \<noteq> [] then jd2\<lparr>targetJobTitle := Some (trim t)\<rparr>
                        else jd2\<lparr>targetJobTitle := None\<rparr>)
      else jd)"

text \<open>
  \<open>reanalyzeCV\<close>: the owner's record is reset, whatever its status, saved, and the
  background analysis is started for it. A save that throws answers 500 and leaves
  the collection as it was.
\<close>

definition reanalyzeCV ::
  "(cv_analysis \<Rightarrow> string option) \<Rightarrow> world \<Rightarrow> nat \<Rightarrow> nat \<Rightarrow> reanalyze_body
     \<Rightarrow> http_response \<times> world \<times> nat option" where
  "reanalyzeCV save_error w uid analysisId body =
     (case findOne_owned (store w) analysisId uid of
        None \<Rightarrow> (not_found, w, None)
      | Some analysis \<Rightarrow>
          let reset = analysis
                \<lparr> jobData := updated_jobData body (jobData analysis),
                  processingStatus := Processing,
                  overallScore := None,
                  summary := None,
                  sections := JObj [],
                  recommendations := JArr [],
                  jobMatching := JObj [],
                  marketInsights := JObj [],
                  openaiProcessing := None,
                  errorMessage := None \<rparr>
          in if save_error reset \<noteq> None then
               (\<lparr> http_status = 500, success = False,
                   message = Some ''Failed to reanalyze CV'', payload = NoData \<rparr>, w, None)
             else
               (\<lparr> http_status = 200, success = True,
                   message = Some ''CV reanalysis started successfully'',
                   payload = ReanalysisStarted analysisId (processingStatus reset) \<rparr>,
                w\<lparr> store := AList.update analysisId reset (store w) \<rparr>, Some analysisId))"

text \<open>
  \<open>deleteAnalysis\<close>: \<open>fs.unlink\<close> on the file of the record (a failure is only logged),
  then \<open>findByIdAndDelete\<close>.
\<close>

definition deleteAnalysis :: "world \<Rightarrow> nat \<Rightarrow> nat \<Rightarrow> http_response \<times> world" where
  "deleteAnalysis w uid analysisId =
     (case findOne_owned (store w) analysisId uid of
        None \<Rightarrow> (not_found, w)
      | Some analysis \<Rightarrow>
          (\<lparr> http_status = 200, success = True,
              message = Some ''Analysis deleted successfully'', payload = NoData \<rparr>,
           w\<lparr> files := files w - {filePath analysis},
              store := filter (\<lambda>(i, a). i \<noteq> analysisId) (store w) \<rparr>))"

subsection \<open>History\<close>

text \<open>
  The string-valued paths of the schema a filter can name, with the value a stored
  document has there. A name that is no path of the schema has no entry: the strict
  schema stores no such field.
\<close>

definition schema_string_path :: "string \<Rightarrow> (cv_analysis \<Rightarrow> string option) option" where
  "schema_string_path p =
     map_of
       [(''originalFilename'', \<lambda>a. Some (originalFilename a)),
        (''filePath'', \<lambda>a. Some (filePath a)),
        (''extractedText'', \<lambda>a. Some (extractedText a)),
        (''processingStatus'', \<lambda>a. Some (status_name (processingStatus a))),
        (''errorMessage'', errorMessage)] p"

text \<open>
  One equality condition \<open>{ p: v }\<close> of a filter. On a path of the schema it compares
  the stored value. On any other name it depends on the \<open>strictQuery\<close> option of the
  Mongoose in use, which the repository does not set: when on, the condition is
  removed from the filter; when off, it is sent to the database, where no stored
  document has the field.
\<close>

definition string_condition :: "bool \<Rightarrow> string \<Rightarrow> string \<Rightarrow> cv_analysis \<Rightarrow> bool" where
  "string_condition strictQuery p v a =
     (case schema_string_path p of
        None \<Rightarrow> strictQuery
      | Some field \<Rightarrow> field a = Some v)"

record history_query =
  q_page :: "nat option"
  q_limit :: "nat option"
  q_status :: "string option"

text \<open>
  The filter of \<open>getAnalysisHistory\<close>: \<open>{ userId }\<close> and, when the request has a
  non-empty \<open>status\<close>, \<open>query.status = status\<close>.
\<close>

definition history_filter :: "bool \<Rightarrow> nat \<Rightarrow> string option \<Rightarrow> cv_analysis \<Rightarrow> bool" where
  "history_filter strictQuery uid status a =
     (userId a = uid \<and>
      (if falsy_field status then True
       else string_condition strictQuery ''status'' (field_value status) a))"

text \<open>
  \<open>CVAnalysis.paginate(query, options)\<close> of mongoose-paginate-v2 with
  \<open>sort: { createdAt: -1 }\<close> and \<open>select: '-extractedText ...'\<close>: the matching documents,
  newest first, without the extracted text, cut to the page. A page below 1 counts as
  1, and a limit of 0 returns the count alone. \<open>page\<close> and \<open>limit\<close> default to 1 and 10.
\<close>

definition paginate ::
  "(cv_analysis \<Rightarrow> bool) \<Rightarrow> nat \<Rightarrow> nat \<Rightarrow> collection \<Rightarrow> (nat \<times> analysis_fields) list \<times> nat" where
  "paginate matching page limit st =
     (let found = filter (\<lambda>(i, a). matching a) st;
          sorted_docs = rev (sort_key (\<lambda>(i, a). createdAt a) found);
          selected = map (\<lambda>(i, a). (i, analysis_fields.truncate a)) sorted_docs
      in (if limit = 0 then []
          else take limit (drop ((max page 1 - 1) * limit) selected),
          length found))"

definition getAnalysisHistory :: "bool \<Rightarrow> world \<Rightarrow> nat \<Rightarrow> history_query \<Rightarrow> http_response" where
  "getAnalysisHistory strictQuery w uid q =
     (let page = (case q_page q of None \<Rightarrow> 1 | Some p \<Rightarrow> p);
          limit = (case q_limit q of None \<Rightarrow> 10 | Some l \<Rightarrow> l);
          (docs, totalDocs) =
             paginate (history_filter strictQuery uid (q_status q)) page limit (store w)
      in \<lparr> http_status = 200, success = True, message = None,
           payload = HistoryPage docs totalDocs \<rparr>)"

subsection \<open>The background analysis\<close>

text \<open>
  The \<open>catch\<close> of \<open>performAnalysis\<close>: the record is marked failed with the message of the
  error, unless that update throws, and the error is thrown on.
\<close>

definition analysis_failed ::
  "bool \<Rightarrow> nat \<Rightarrow> js_error \<Rightarrow> world \<Rightarrow> world \<times> js_error option" where
  "analysis_failed update_throws analysisId error w =
     (w\<lparr> store :=
          markAnalysisAsFailed update_throws analysisId (error_message error) (store w) \<rparr>,
      Some error)"

text \<open>The assignments of the results to the document, each under the test of the source.\<close>

definition assign_if_truthy :: "json option \<Rightarrow> json \<Rightarrow> json" where
  "assign_if_truthy v old = (case v of None \<Rightarrow> old | Some x \<Rightarrow> if truthy x then x else old)"

definition with_results :: "ai_result \<Rightarrow> cv_analysis \<Rightarrow> cv_analysis" where
  "with_results aiResult analysis =
     analysis
       \<lparr> overallScore := r_overallScore aiResult,
         summary := r_summary aiResult,
         sections := assign_if_truthy (r_sections aiResult) (sections analysis),
         recommendations :=
           assign_if_truthy (r_recommendations aiResult) (recommendations analysis),
         jobMatching := assign_if_truthy (r_jobMatching aiResult) (jobMatching analysis),
         marketInsights :=
           assign_if_truthy (r_marketInsights aiResult) (marketInsights analysis),
         openaiProcessing := Some (r_openaiProcessing aiResult),
         processingStatus := Completed \<rparr>"

text \<open>
  \<open>performAnalysis\<close>, run without interleaving with another writer of the record. The
  text extractor is a parameter: from the path and the size of the file it gives the
  text, or throws. \<open>update_throws n\<close> says whether the status update number \<open>n\<close> of the
  run is refused by the store: number 0 is the one of the \<open>catch\<close> of this function,
  number 1 the one of the \<open>catch\<close> of the caller. The function returns the world and
  the error it throws, if any; the calls and delays of the one \<open>analyzeCV\<close> it may
  reach are added to those of the world. A save that throws inside the extraction
  block is rethrown as an extraction failure.
\<close>

definition performAnalysis ::
  "service_config \<Rightarrow> (string \<Rightarrow> json option) \<Rightarrow> (cv_analysis \<Rightarrow> string option)
     \<Rightarrow> (nat \<Rightarrow> bool) \<Rightarrow> (string \<Rightarrow> nat \<Rightarrow> js_error + string)
     \<Rightarrow> (nat \<Rightarrow> js_error + api_response) \<Rightarrow> world \<Rightarrow> nat \<Rightarrow> world \<times> js_error option" where
  "performAnalysis cfg JSON_parse save_error update_throws extractTextFromPDF api w analysisId =
     (case map_of (store w) analysisId of
        None \<Rightarrow>
          analysis_failed (update_throws 0) analysisId
            (PlainError ''Analysis record not found'') w
      | Some analysis \<Rightarrow>
          (case extractTextFromPDF (filePath analysis) (fileSize analysis) of
             Inl extractionError \<Rightarrow>
               analysis_failed (update_throws 0) analysisId
                 (PlainError
                    (''Failed to extract text from CV: '' @ error_message extractionError)) w
           | Inr extracted \<Rightarrow>
               let analysis1 = analysis\<lparr> extractedText := extracted \<rparr>
               in (case save_error analysis1 of
                     Some msg \<Rightarrow>
                       analysis_failed (update_throws 0) analysisId
                         (PlainError (''Failed to extract text from CV: '' @ msg)) w
                   | None \<Rightarrow>
                       let w1 = w\<lparr> store := AList.update analysisId analysis1 (store w) \<rparr>
                       in if extracted = [] \<or> trim extracted = [] then
                            analysis_failed (update_throws 0) analysisId
                              (PlainError ''No text content found in the uploaded CV'') w1
                          else
                            let c = analyzeCV cfg JSON_parse api (service w1);
                                w2 = w1\<lparr> service := a_service c,
                                        api_calls := api_calls w1 + a_calls c,
                                        api_delays := api_delays w1 @ a_waits c \<rparr>
                            in (case a_result c of
                                  Inl error \<Rightarrow>
                                    analysis_failed (update_throws 0) analysisId error w2
                                | Inr aiResult \<Rightarrow>
                                    let analysis2 = with_results aiResult analysis1
                                    in (case save_error analysis2 of
                                          Some msg \<Rightarrow>
                                            analysis_failed (update_throws 0) analysisId
                                              (PlainError msg) w2
                                        | None \<Rightarrow>
                                            (w2\<lparr> store :=
                                                  AList.update analysisId analysis2 (store w2) \<rparr>,
                                             None))))))"

text \<open>
  The promise the two handlers start:
  \<open>this.performAnalysis(id).catch(error => this.markAnalysisAsFailed(id, error.message))\<close>.
\<close>

definition background_analysis ::
  "service_config \<Rightarrow> (string \<Rightarrow> json option) \<Rightarrow> (cv_analysis \<Rightarrow> string option)
     \<Rightarrow> (nat \<Rightarrow> bool) \<Rightarrow> (string \<Rightarrow> nat \<Rightarrow> js_error + string)
     \<Rightarrow> (nat \<Rightarrow> js_error + api_response) \<Rightarrow> world \<Rightarrow> nat \<Rightarrow> world" where
  "background_analysis cfg JSON_parse save_error update_throws extractTextFromPDF api
     w analysisId =
     (case performAnalysis cfg JSON_parse save_error update_throws extractTextFromPDF api
             w analysisId of
        (w', None) \<Rightarrow> w'
      | (w', Some error) \<Rightarrow>
          w'\<lparr> store :=
               markAnalysisAsFailed (update_throws 1) analysisId (error_message error)
                 (store w') \<rparr>)"

text \<open>The status a record has in a collection.\<close>

definition status_of :: "collection \<Rightarrow> nat \<Rightarrow> processing_status option" where
  "status_of st analysisId = map_option processingStatus (map_of st analysisId)"

text \<open>
  For examples: \<open>JSON.parse\<close> on the texts an example hands to it, as the table of
  those that parse with their values; a text outside the table is one that does not
  parse.
\<close>

definition JSON_parse_of :: "(string \<times> json) list \<Rightarrow> string \<Rightarrow> json option" where
  "JSON_parse_of parses s = map_of parses s"

text \<open>Reading \<open>sections[name].score\<close> off the named properties of a response.\<close>

definition section_score :: "(string \<times> json) list \<Rightarrow> string \<Rightarrow> json option" where
  "section_score props name =
     (case map_of props ''sections'' of
        Some (JObj secs) \<Rightarrow>
          (case map_of secs name of
             Some (JObj sec) \<Rightarrow> map_of sec ''score''
           | _ \<Rightarrow> None)
      | _ \<Rightarrow> None)"

subsection \<open>Concrete inputs\<close>

text \<open>
  A record of user 7 whose analysis has completed, a collection holding it together
  with a failed record of the same user and a completed record of user 8, and requests
  on them.
\<close>

definition example_record :: cv_analysis where
  "example_record =
     \<lparr> userId = 7,
       originalFilename = ''resume.pdf'',
       filePath = ''uploads/cv-analyzer/cv_1700000000000_ab12cd.pdf'',
       fileSize = 51200,
       jobData = \<lparr> experienceLevel = ''mid'', major = ''Computer Science'',
                   targetJobTitle = None \<rparr>,
       overallScore = Some (JNum (Fin 85)),
       summary = None,
       sections = JObj [],
       recommendations = JArr [],
       jobMatching = JObj [],
       marketInsights = JObj [],
       processingStatus = Completed,
       errorMessage = None,
       processingStages = [],
       openaiProcessing = None,
       isActive = True,
       deletedAt = None,
       createdAt = 10,
       extractedText = ''Jane Doe, software engineer with five years of experience'' \<rparr>"

definition example_world :: world where
  "example_world =
     \<lparr> store =
         [(1, example_record),
          (2, example_record\<lparr> processingStatus := Failed, createdAt := 20,
                overallScore := None, errorMessage := Some ''CV analysis failed'' \<rparr>),
          (5, example_record\<lparr> userId := 8, createdAt := 30 \<rparr>)],
       files = {''uploads/cv-analyzer/cv_1700000000000_ab12cd.pdf''},
       service = \<lparr> tokensUsed = 0, requestCount = 0 \<rparr>,
       api_calls = 0,
       api_delays = [] \<rparr>"

definition example_upload :: upload_request where
  "example_upload =
     \<lparr> u_user = 7, u_experienceLevel = Some ''mid'', u_major = Some ''Computer Science'',
       u_targetJobTitle = None,
       u_file = Some \<lparr> originalname = ''resume.pdf'',
                       path = ''uploads/cv-analyzer/cv_1700000000500_ef34ab.pdf'',
                       size_bytes = 51200 \<rparr> \<rparr>"

definition no_changes :: reanalyze_body where
  "no_changes = \<lparr> b_experienceLevel = None, b_major = None, b_targetJobTitle = None \<rparr>"

definition completed_only :: history_query where
  "completed_only = \<lparr> q_page = None, q_limit = None, q_status = Some ''completed'' \<rparr>"

text \<open>The identifiers and statuses on a history page, in the order of the page.\<close>

definition listed_statuses :: "http_response \<Rightarrow> (nat \<times> processing_status) list" where
  "listed_statuses resp =
     (case payload resp of
        HistoryPage docs n \<Rightarrow> map (\<lambda>(i, d). (i, processingStatus d)) docs
      | _ \<Rightarrow> [])"

text \<open>
  In the words of claim C9, for comparison with the page the code returns: the
  caller's records whose processing status equals the filter value.
\<close>

definition claimed_history :: "world \<Rightarrow> nat \<Rightarrow> string \<Rightarrow> (nat \<times> processing_status) list" where
  "claimed_history w uid S =
     map (\<lambda>(i, a). (i, processingStatus a))
       (filter (\<lambda>(i, a). userId a = uid \<and> status_name (processingStatus a) = S) (store w))"

text \<open>
  An API that is down at every call: a 503, then a rate limit, then a timeout without
  a status. An API that answers at once with a text, and a text extractor that finds
  a text.
\<close>

definition failing_api :: "nat \<Rightarrow> js_error + api_response" where
  "failing_api i =
     Inl (if i = 0 then ApiFailure (Some 503) ''Service Unavailable''
          else if i = 1 then ApiFailure (Some 429) ''Rate limit exceeded''
          else ApiFailure None ''Connection timed out'')"

definition answering_api :: "string \<Rightarrow> nat \<Rightarrow> js_error + api_response" where
  "answering_api content i = Inr \<lparr> choices = [Some content], total_tokens = Some 1200 \<rparr>"

definition example_extractor :: "string \<Rightarrow> nat \<Rightarrow> js_error + string" where
  "example_extractor file_path file_size =
     Inr ''Jane Doe, software engineer with five years of experience''"

text \<open>
  A response whose overall score and whose one section score are both 150: the text the
  model sends, and the named properties \<open>JSON.parse\<close> gives for it.
\<close>

definition out_of_range_text :: string where
  \<open>out_of_range_text =
     ''{"overallScore": 150, "sections": {"atsCompatibility": {"score": 150}}}''\<close>

definition out_of_range_props :: "(string \<times> json) list" where
  "out_of_range_props =
     [(''overallScore'', JNum (Fin 150)),
      (''sections'', JObj [(''atsCompatibility'', JObj [(''score'', JNum (Fin 150))])])]"

text \<open>A store that accepts every status update, and a text extractor that throws.\<close>

definition no_update_throws :: "nat \<Rightarrow> bool" where
  "no_update_throws n = False"

definition throwing_extractor :: "string \<Rightarrow> nat \<Rightarrow> js_error + string" where
  "throwing_extractor file_path file_size = Inl (PlainError ''Invalid PDF file format'')"

text \<open>
  Two reanalysis requests of user 7 for record 1, one after the other, each starting
  its own run; then the writes of the first run, which succeeds, and after them the
  writes of the second run, whose extraction fails.
\<close>

definition reanalysed_once :: world where
  "reanalysed_once = fst (snd (reanalyzeCV schema_validation example_world 7 1 no_changes))"

definition reanalysed_twice :: world where
  "reanalysed_twice = fst (snd (reanalyzeCV schema_validation reanalysed_once 7 1 no_changes))"

definition first_run_done :: world where
  "first_run_done =
     background_analysis (OpenAIService_new None)
       (JSON_parse_of [(out_of_range_text, JObj out_of_range_props)])
       schema_validation no_update_throws example_extractor (answering_api out_of_range_text)
       reanalysed_twice 1"

definition second_run_done :: world where
  "second_run_done =
     background_analysis (OpenAIService_new None)
       (JSON_parse_of [(out_of_range_text, JObj out_of_range_props)])
       schema_validation no_update_throws throwing_extractor (answering_api out_of_range_text)
       first_run_done 1"

section \<open>Properties\<close>

subsection \<open>Auxiliary facts\<close>

lemma retry_loop_exhausted:
  "\<not> attempt < retryAttempts cfg \<Longrightarrow>
   retry_loop cfg api attempt lastError slept =
     \<lparr> outcome = Inl (OpenAIServiceError
          (''OpenAI API failed after '' @ show_nat (retryAttempts cfg) @ '' attempts'')
          lastError),
       calls_made = attempt, delays = slept \<rparr>"
  by (subst retry_loop.simps) simp

lemma retry_loop_retry:
  "attempt < retryAttempts cfg \<Longrightarrow> api attempt = Inl e \<Longrightarrow> \<not> isNonRetryableError e \<Longrightarrow>
   retry_loop cfg api attempt lastError slept =
     retry_loop cfg api (Suc attempt) (Some e)
       (if attempt < retryAttempts cfg - 1
        then slept @ [min (retryDelay cfg * 2 ^ attempt) (maxRetryDelay cfg)] else slept)"
  by (subst retry_loop.simps) simp

text \<open>
  Under any configuration, when every attempt fails with an error that may be retried,
  the loop makes \<open>retryAttempts\<close> calls, sleeps the capped exponential delay after each
  but the last, and throws the service error.
\<close>

lemma retry_loop_all_fail:
  assumes "\<forall>i < retryAttempts cfg. \<exists>e. api i = Inl e \<and> \<not> isNonRetryableError e"
    and "attempt \<le> retryAttempts cfg"
  shows "calls_made (retry_loop cfg api attempt lastError slept) = retryAttempts cfg \<and>
         delays (retry_loop cfg api attempt lastError slept) =
           slept @ map (\<lambda>k. min (retryDelay cfg * 2 ^ k) (maxRetryDelay cfg))
                       [attempt ..< retryAttempts cfg - 1] \<and>
         (\<exists>le. outcome (retry_loop cfg api attempt lastError slept) =
            Inl (OpenAIServiceError
              (''OpenAI API failed after '' @ show_nat (retryAttempts cfg) @ '' attempts'') le))"
  using assms
proof (induction "retryAttempts cfg - attempt" arbitrary: attempt lastError slept)
  case 0
  then have "\<not> attempt < retryAttempts cfg" by simp
  with 0 show ?case by (simp add: retry_loop_exhausted)
next
  case (Suc n)
  then have lt: "attempt < retryAttempts cfg" by simp
  with Suc.prems obtain e where e: "api attempt = Inl e" "\<not> isNonRetryableError e" by blast
  have n: "n = retryAttempts cfg - Suc attempt" using Suc.hyps(2) by simp
  have le: "Suc attempt \<le> retryAttempts cfg" using lt by simp
  note ih = Suc.hyps(1)[OF n Suc.prems(1) le]
  note step = retry_loop_retry[of attempt cfg api e, OF lt e]
  show ?case
  proof (cases "attempt < retryAttempts cfg - 1")
    case True
    then have upt: "[attempt ..< retryAttempts cfg - 1] =
                    attempt # [Suc attempt ..< retryAttempts cfg - 1]"
      by (simp add: upt_conv_Cons)
    show ?thesis
      unfolding step upt using True ih by simp
  next
    case False
    then have upt: "[attempt ..< retryAttempts cfg - 1] = []"
                   "[Suc attempt ..< retryAttempts cfg - 1] = []"
      by simp_all
    show ?thesis
      unfolding step upt using False ih by (simp add: upt)
  qed
qed

lemma backoff_sorted:
  "sorted (map (\<lambda>k. min (d * 2 ^ k) (c::nat)) [a ..< b])"
proof -
  have "mono (\<lambda>k. min (d * 2 ^ k) c)"
    by (rule monoI) (auto intro!: min.mono mult_le_mono2 power_increasing simp: min_le_iff_disj)
  then show ?thesis
    by (simp add: sorted_map sorted_wrt_iff_nth_less mono_def)
qed

lemma retry_delays_sorted_and_capped:
  assumes "\<forall>i < retryAttempts cfg. \<exists>e. api i = Inl e \<and> \<not> isNonRetryableError e"
  shows "calls_made (makeAPICallWithRetry cfg api) = retryAttempts cfg \<and>
         sorted (delays (makeAPICallWithRetry cfg api)) \<and>
         (\<forall>d \<in> set (delays (makeAPICallWithRetry cfg api)). d \<le> maxRetryDelay cfg) \<and>
         length (delays (makeAPICallWithRetry cfg api)) = retryAttempts cfg - 1"
  using retry_loop_all_fail[OF assms, of 0 None "[]"] backoff_sorted
  by (auto simp: makeAPICallWithRetry_def)

lemma clamp_range:
  "\<exists>r. Math_max (Fin 0) (Math_min (Fin 100) x) = Fin r \<and> 0 \<le> r \<and> r \<le> 100"
  by (cases x) (auto simp: Math_max_def Math_min_def)

lemma map_of_default_if_falsy:
  "map_of (default_if_falsy f d props) k =
     (if k = f then (case map_of props f of
                       None \<Rightarrow> Some d
                     | Some v \<Rightarrow> if truthy v then Some v else Some d)
      else map_of props k)"
  by (auto simp: default_if_falsy_def update_conv' split: option.splits)

lemma clamp_overallScore_range:
  "\<exists>r. map_of (clamp_overallScore props) ''overallScore'' = Some (JNum (Fin r)) \<and>
       0 \<le> r \<and> r \<le> 100"
proof (cases "map_of props ''overallScore''")
  case None
  then show ?thesis by (simp add: clamp_overallScore_def update_conv')
next
  case (Some v)
  then show ?thesis
    using clamp_range by (cases v) (auto simp: clamp_overallScore_def update_conv')
qed

lemma clamp_overallScore_other:
  "k \<noteq> ''overallScore'' \<Longrightarrow> map_of (clamp_overallScore props) k = map_of props k"
  by (simp add: clamp_overallScore_def update_conv' split: option.splits json.splits)

lemma fill_defaults_sections:
  "map_of props ''sections'' = Some v \<Longrightarrow> truthy v \<Longrightarrow>
   map_of (fill_defaults props) ''sections'' = Some v"
  by (simp add: fill_defaults_def Let_def map_of_default_if_falsy update_conv')

lemma fill_defaults_overallScore:
  "map_of (fill_defaults props) ''overallScore'' =
     (case map_of props ''overallScore'' of None \<Rightarrow> Some (JNum (Fin 75)) | Some v \<Rightarrow> Some v)"
  by (simp add: fill_defaults_def Let_def map_of_default_if_falsy update_conv'
           split: option.splits)

lemma validate_overallScore_value:
  assumes "validateResponseStructure (JObj kvs) = Inr props"
  shows "map_of props ''overallScore'' =
     Some (JNum (case map_of kvs ''overallScore'' of
                   Some (JNum x) \<Rightarrow> Math_max (Fin 0) (Math_min (Fin 100) x)
                 | _ \<Rightarrow> Fin 75))"
  using assms
  by (auto simp: validateResponseStructure_def clamp_overallScore_def fill_defaults_overallScore
        update_conv' Math_max_def Math_min_def split: option.splits json.splits)

lemma validate_overallScore:
  assumes "validateResponseStructure response = Inr props"
  shows "\<exists>r. map_of props ''overallScore'' = Some (JNum (Fin r)) \<and> 0 \<le> r \<and> r \<le> 100"
  using assms clamp_overallScore_range
  by (auto simp: validateResponseStructure_def split: option.splits)

lemma validate_sections_kept:
  assumes "validateResponseStructure (JObj kvs) = Inr props"
    and "map_of kvs ''sections'' = Some v" and "truthy v"
  shows "map_of props ''sections'' = Some v"
  using assms
  by (auto simp: validateResponseStructure_def clamp_overallScore_other fill_defaults_sections)

lemma validate_fallback:
  "validateResponseStructure (createFallbackStructure content) =
     Inr [(''overallScore'', JNum (Fin 75)),
          (''summary'', JObj
             [(''strengths'', JStr ''CV analysis completed''),
              (''areasOfImprovement'', JStr ''Please review the detailed analysis''),
              (''keyFindings'', JStr (take 500 content @ ''...''))]),
          (''sections'', JObj [(''analysis'', JStr content)]),
          (''recommendations'', JArr
             [JObj [(''priority'', JStr ''medium''),
                    (''category'', JStr ''general''),
                    (''suggestion'', JStr ''Please review the detailed analysis provided''),
                    (''impact'', JStr ''General improvements recommended'')]]),
          (''jobMatching'', JObj [(''compatibility'', JNum (Fin 75))]),
          (''marketInsights'',
             JObj [(''analysis'', JStr ''Market analysis included in content'')])]"
  by (simp add: validateResponseStructure_def createFallbackStructure_def default_if_falsy_def
        fill_defaults_def clamp_overallScore_def Math_max_def Math_min_def)

lemma map_of_filter_other:
  "map_of (filter (\<lambda>(i, a). i \<noteq> k) st) j = (if j = k then None else map_of st j)"
  by (induction st) auto

lemma map_of_update_same: "map_of (AList.update i a st) i = Some a"
  by (simp add: update_conv')

lemma markAsCompleted_twice:
  "markAsCompleted now2 (markAsCompleted now1 a) = markAsCompleted now1 a"
  by (simp add: markAsCompleted_def comp_def cong: map_cong)

text \<open>What a status update does to the collection, applied or refused.\<close>

lemma map_of_markAnalysisAsFailed:
  "map_of (markAnalysisAsFailed t i m st) j =
     (if j = i \<and> \<not> t
      then map_option (\<lambda>a. a\<lparr> processingStatus := Failed, errorMessage := Some (trim m) \<rparr>)
             (map_of st i)
      else map_of st j)"
  by (auto simp: markAnalysisAsFailed_def update_conv' split: option.splits)

lemma status_of_markAnalysisAsFailed:
  "status_of (markAnalysisAsFailed t i m st) j =
     (if j = i \<and> \<not> t then map_option (\<lambda>_. Failed) (map_of st i) else status_of st j)"
  by (cases "map_of st i") (auto simp: status_of_def map_of_markAnalysisAsFailed)

lemma markAnalysisAsFailed_again:
  "markAnalysisAsFailed t i m (markAnalysisAsFailed False i m st) =
     markAnalysisAsFailed False i m st"
  by (auto simp: markAnalysisAsFailed_def update_conv' split: option.splits)



lemma analyzeCV_returns:
  "a_result (analyzeCV cfg JSON_parse api svc) = Inr x \<Longrightarrow>
   \<exists>ok. outcome (makeAPICallWithRetry cfg api) = Inr ok"
  by (auto simp: analyzeCV_def analyzeCVComprehensive_def Let_def split: sum.splits)

text \<open>A run writes to the record it is run for, and to no other.\<close>

lemma performAnalysis_other_records:
  "j \<noteq> i \<Longrightarrow>
   map_of (store (fst (performAnalysis cfg JSON_parse save_error update_throws extractor api
                         w i))) j = map_of (store w) j"
  by (auto simp: performAnalysis_def analysis_failed_def Let_def map_of_markAnalysisAsFailed
        update_conv' split: option.splits sum.splits)

lemma background_analysis_other_records:
  "j \<noteq> i \<Longrightarrow>
   map_of (store (background_analysis cfg JSON_parse save_error update_throws extractor api
                    w i)) j = map_of (store w) j"
  using performAnalysis_other_records[of j i cfg JSON_parse save_error update_throws extractor
          api w]
  by (auto simp: background_analysis_def map_of_markAnalysisAsFailed
           split: prod.splits option.splits)

text \<open>
  A run of \<open>performAnalysis\<close> on a stored record either returns with the record
  completed, and then the API call had succeeded, or throws; when it throws, the record
  is failed if the status update was applied, and has the status it had otherwise.
\<close>

lemma performAnalysis_outcome:
  assumes "map_of (store w) i = Some a"
    and "performAnalysis cfg JSON_parse save_error update_throws extractor api w i = (w', r)"
  shows "(r = None \<and> status_of (store w') i = Some Completed \<and>
            (\<exists>ok. outcome (makeAPICallWithRetry cfg api) = Inr ok)) \<or>
         (\<exists>e. r = Some e \<and>
              status_of (store w') i =
                (if update_throws 0 then Some (processingStatus a) else Some Failed))"
proof (cases "a_result (analyzeCV cfg JSON_parse api (service w))")
  case (Inl e)
  with assms show ?thesis
    unfolding performAnalysis_def Let_def
    by (auto simp: map_of_update_same status_of_def analysis_failed_def
          map_of_markAnalysisAsFailed
          split: sum.splits option.splits if_splits)
next
  case (Inr x)
  then obtain ok where "outcome (makeAPICallWithRetry cfg api) = Inr ok"
    using analyzeCV_returns by blast
  with assms Inr show ?thesis
    unfolding performAnalysis_def Let_def
    by (auto simp: map_of_update_same status_of_def analysis_failed_def with_results_def
          map_of_markAnalysisAsFailed
          split: sum.splits option.splits if_splits)
qed

lemma background_analysis_status:
  assumes "map_of (store w) i = Some a"
  shows "(status_of (store (background_analysis cfg JSON_parse save_error update_throws
                              extractor api w i)) i = Some Completed \<and>
          (\<exists>ok. outcome (makeAPICallWithRetry cfg api) = Inr ok)) \<or>
         status_of (store (background_analysis cfg JSON_parse save_error update_throws
                             extractor api w i)) i =
           (if update_throws 0 \<and> update_throws 1
            then Some (processingStatus a) else Some Failed)"
proof -
  obtain w' r where
    p: "performAnalysis cfg JSON_parse save_error update_throws extractor api w i = (w', r)"
    by (cases "performAnalysis cfg JSON_parse save_error update_throws extractor api w i")
  from performAnalysis_outcome[OF assms p] show ?thesis
  proof
    assume "r = None \<and> status_of (store w') i = Some Completed \<and>
            (\<exists>ok. outcome (makeAPICallWithRetry cfg api) = Inr ok)"
    then show ?thesis by (simp add: background_analysis_def p)
  next
    assume "\<exists>e. r = Some e \<and>
              status_of (store w') i =
                (if update_throws 0 then Some (processingStatus a) else Some Failed)"
    then obtain e where e: "r = Some e"
      "status_of (store w') i =
         (if update_throws 0 then Some (processingStatus a) else Some Failed)"
      by blast
    then have "map_of (store w') i \<noteq> None" by (auto simp: status_of_def split: if_splits)
    then show ?thesis
      using e(2) by (auto simp: background_analysis_def p e(1) status_of_markAnalysisAsFailed)
  qed
qed




text \<open>The handlers and the records they are not called for.\<close>

lemma upload_keeps_records:
  "map_of (store w) j = Some a \<Longrightarrow>
   map_of (store (fst (snd (uploadAndAnalyzeCV save_error new_id now w req)))) j = Some a"
  by (auto simp: uploadAndAnalyzeCV_def Let_def map_add_def split: option.splits)

lemma reanalyze_other_records:
  "j \<noteq> i \<Longrightarrow>
   map_of (store (fst (snd (reanalyzeCV save_error w uid i body)))) j = map_of (store w) j"
  by (auto simp: reanalyzeCV_def Let_def update_conv' split: option.splits)

lemma reanalyze_same_record:
  "status_of (store w) j = Some s \<Longrightarrow>
   status_of (store (fst (snd (reanalyzeCV save_error w uid j body)))) j =
     (if http_status (fst (reanalyzeCV save_error w uid j body)) = 200
      then Some Processing else Some s) \<and>
   snd (snd (reanalyzeCV save_error w uid j body)) =
     (if http_status (fst (reanalyzeCV save_error w uid j body)) = 200
      then Some j else None)"
  by (auto simp: reanalyzeCV_def Let_def not_found_def status_of_def map_of_update_same
           split: option.splits)

lemma delete_records:
  "map_of (store (snd (deleteAnalysis w uid i))) j =
     (if j = i \<and> http_status (fst (deleteAnalysis w uid i)) = 200 then None
      else map_of (store w) j)"
  by (auto simp: deleteAnalysis_def not_found_def map_of_filter_other split: option.splits)

lemma history_page_of_caller:
  "\<forall>(k, d) \<in> set (fst (paginate (history_filter strictQuery uid s) page limit st)).
     userId d = uid"
  by (auto simp: paginate_def Let_def history_filter_def analysis_fields.truncate_def
           dest!: in_set_takeD in_set_dropD)

text \<open>
  A run that succeeds: the API answers at the first call with the out-of-range response,
  and record 1 ends completed with the overall score 100, after one call and no delay.
\<close>

lemma example_run_completes:
  "map_option (\<lambda>a. (processingStatus a, overallScore a))
     (map_of (store (background_analysis (OpenAIService_new None)
        (JSON_parse_of [(out_of_range_text, JObj out_of_range_props)])
        schema_validation no_update_throws example_extractor (answering_api out_of_range_text)
        example_world 1)) 1)
   = Some (Completed, Some (JNum (Fin 100))) \<and>
   api_calls (background_analysis (OpenAIService_new None)
        (JSON_parse_of [(out_of_range_text, JObj out_of_range_props)])
        schema_validation no_update_throws example_extractor (answering_api out_of_range_text)
        example_world 1) = 1"
  by (simp add: background_analysis_def performAnalysis_def analyzeCV_def
        analyzeCVComprehensive_def makeAPICallWithRetry_def retry_loop.simps
        parseAndValidateResponse_def parse_step_def first_content_def JSON_parse_of_def
        validateResponseStructure_def fill_defaults_def clamp_overallScore_def
        default_if_falsy_def Math_max_def Math_min_def trackUsage_def with_results_def
        assign_if_truthy_def OpenAIService_new_def answering_api_def example_extractor_def
        example_world_def example_record_def schema_validation_def trim_def is_space_def
        out_of_range_text_def out_of_range_props_def Let_def)

subsection \<open>Status of a record\<close>

text \<open>
  Claim C1, as amended. The status of a stored record is changed by two operations
  only, both for that record itself: a reanalysis request that is answered with 200
  sets it to processing, whatever it was, a terminal status included, and starts a run
  for the record; and a background analysis run for the record leaves it as it was or
  sets it to completed or to failed. No other operation changes it: an upload, a
  reanalysis request for another record, the deletion of another record and a run for
  another record leave the status as it is, a reanalysis request for the record that
  is not answered with 200 leaves it too, and so does a deletion request for the
  record that is not answered with 200; the one that is answered with 200 removes the
  record. Fetching the results and the history return a response and no new world.
\<close>

theorem status_changes_by_operation:
  assumes "status_of (store w) j = Some s"
  shows "status_of (store (fst (snd (uploadAndAnalyzeCV save_error new_id now w req)))) j
           = Some s \<and>
         (i \<noteq> j \<longrightarrow>
            status_of (store (fst (snd (reanalyzeCV save_error w uid i body)))) j = Some s \<and>
            status_of (store (snd (deleteAnalysis w uid i))) j = Some s \<and>
            status_of (store (background_analysis cfg JSON_parse save_error update_throws
                                extractor api w i)) j = Some s) \<and>
         status_of (store (fst (snd (reanalyzeCV save_error w uid j body)))) j =
           (if http_status (fst (reanalyzeCV save_error w uid j body)) = 200
            then Some Processing else Some s) \<and>
         snd (snd (reanalyzeCV save_error w uid j body)) =
           (if http_status (fst (reanalyzeCV save_error w uid j body)) = 200
            then Some j else None) \<and>
         status_of (store (snd (deleteAnalysis w uid j))) j =
           (if http_status (fst (deleteAnalysis w uid j)) = 200 then None else Some s) \<and>
         (status_of (store (background_analysis cfg JSON_parse save_error update_throws
                              extractor api w j)) j = Some s \<or>
          status_of (store (background_analysis cfg JSON_parse save_error update_throws
                              extractor api w j)) j = Some Completed \<or>
          status_of (store (background_analysis cfg JSON_parse save_error update_throws
                              extractor api w j)) j = Some Failed)"
proof -
  from assms obtain a where a: "map_of (store w) j = Some a" "processingStatus a = s"
    by (auto simp: status_of_def)
  have up: "status_of (store (fst (snd (uploadAndAnalyzeCV save_error new_id now w req)))) j
              = Some s"
    using upload_keeps_records[OF a(1)] a(2) by (simp add: status_of_def)
  have others:
    "status_of (store (fst (snd (reanalyzeCV save_error w uid i body)))) j = Some s \<and>
     status_of (store (snd (deleteAnalysis w uid i))) j = Some s \<and>
     status_of (store (background_analysis cfg JSON_parse save_error update_throws
                         extractor api w i)) j = Some s"
    if ne: "i \<noteq> j"
    using ne a reanalyze_other_records[of j i save_error w uid body]
      delete_records[of w uid i j]
      background_analysis_other_records[of j i cfg JSON_parse save_error update_throws
        extractor api w]
    by (simp add: status_of_def)
  have del: "status_of (store (snd (deleteAnalysis w uid j))) j =
               (if http_status (fst (deleteAnalysis w uid j)) = 200 then None else Some s)"
    using a delete_records[of w uid j j] by (simp add: status_of_def)
  have run: "status_of (store (background_analysis cfg JSON_parse save_error update_throws
                                 extractor api w j)) j = Some s \<or>
             status_of (store (background_analysis cfg JSON_parse save_error update_throws
                                 extractor api w j)) j = Some Completed \<or>
             status_of (store (background_analysis cfg JSON_parse save_error update_throws
                                 extractor api w j)) j = Some Failed"
    using background_analysis_status[OF a(1), of cfg JSON_parse save_error update_throws
            extractor api] a(2)
    by (auto split: if_splits)
  show ?thesis
    using up others reanalyze_same_record[OF assms, of save_error uid body] del run
    by blast
qed

theorem status_changes_by_operation_witness:
  "status_of (store example_world) 1 = Some Completed \<and>
   (2::nat) \<noteq> 1 \<and>
   status_of (store (fst (snd
     (uploadAndAnalyzeCV schema_validation 3 30 example_world example_upload)))) 1
     = Some Completed \<and>
   status_of (store (fst (snd
     (reanalyzeCV schema_validation example_world 7 2 no_changes)))) 1 = Some Completed \<and>
   status_of (store (snd (deleteAnalysis example_world 7 2))) 1 = Some Completed \<and>
   status_of (store (background_analysis (OpenAIService_new None) (JSON_parse_of [])
        schema_validation no_update_throws example_extractor failing_api example_world 2)) 1
     = Some Completed \<and>
   http_status (fst (reanalyzeCV schema_validation example_world 7 1 no_changes)) = 200 \<and>
   status_of (store (fst (snd
     (reanalyzeCV schema_validation example_world 7 1 no_changes)))) 1 = Some Processing \<and>
   snd (snd (reanalyzeCV schema_validation example_world 7 1 no_changes)) = Some 1 \<and>
   http_status (fst (deleteAnalysis example_world 7 1)) = 200 \<and>
   status_of (store (snd (deleteAnalysis example_world 7 1))) 1 = None"
proof -
  have stored: "status_of (store example_world) 1 = Some Completed"
    by (simp add: status_of_def example_world_def example_record_def)
  have ok: "http_status (fst (reanalyzeCV schema_validation example_world 7 1 no_changes)) = 200"
    by (simp add: reanalyzeCV_def example_world_def example_record_def no_changes_def
          findOne_owned_def updated_jobData_def falsy_field_def schema_validation_def Let_def)
  have gone: "http_status (fst (deleteAnalysis example_world 7 1)) = 200"
    by (simp add: deleteAnalysis_def example_world_def example_record_def findOne_owned_def)
  show ?thesis
    using stored ok gone
      status_changes_by_operation[OF stored, of schema_validation 3 30 example_upload 2 7
        no_changes "OpenAIService_new None" "JSON_parse_of []" no_update_throws
        example_extractor failing_api]
    by simp
qed

text \<open>
  Against C1 as stated. Record 1 is completed; its owner asks for a reanalysis and the
  record is in processing again. The owner asks a second time before either run has
  written: the first run then completes the record, and the second run, whose
  extraction fails, turns the completed record into a failed one.
\<close>

theorem reanalysis_leaves_terminal_status:
  "status_of (store example_world) 1 = Some Completed \<and>
   http_status (fst (reanalyzeCV schema_validation example_world 7 1 no_changes)) = 200 \<and>
   status_of (store reanalysed_once) 1 = Some Processing \<and>
   status_of (store reanalysed_twice) 1 = Some Processing \<and>
   status_of (store first_run_done) 1 = Some Completed \<and>
   status_of (store second_run_done) 1 = Some Failed"
proof -
  have once: "reanalysed_once =
      example_world\<lparr> store :=
        [(1, example_record\<lparr> processingStatus := Processing, overallScore := None \<rparr>),
         (2, example_record\<lparr> processingStatus := Failed, createdAt := 20,
               overallScore := None, errorMessage := Some ''CV analysis failed'' \<rparr>),
         (5, example_record\<lparr> userId := 8, createdAt := 30 \<rparr>)] \<rparr>"
    by (simp add: reanalysed_once_def reanalyzeCV_def example_world_def example_record_def
          no_changes_def findOne_owned_def updated_jobData_def falsy_field_def
          schema_validation_def Let_def)
  have twice: "reanalysed_twice = reanalysed_once"
    by (simp add: reanalysed_twice_def once reanalyzeCV_def example_world_def
          example_record_def no_changes_def findOne_owned_def updated_jobData_def
          falsy_field_def schema_validation_def Let_def)
  have first: "status_of (store first_run_done) 1 = Some Completed"
    by (simp add: first_run_done_def twice once background_analysis_def performAnalysis_def
          analyzeCV_def analyzeCVComprehensive_def makeAPICallWithRetry_def retry_loop.simps
          parseAndValidateResponse_def parse_step_def first_content_def JSON_parse_of_def
          validateResponseStructure_def fill_defaults_def clamp_overallScore_def
          default_if_falsy_def Math_max_def Math_min_def trackUsage_def with_results_def
          assign_if_truthy_def OpenAIService_new_def answering_api_def example_extractor_def
          example_world_def example_record_def schema_validation_def trim_def is_space_def
          out_of_range_text_def out_of_range_props_def status_of_def Let_def)
  then obtain a where a: "map_of (store first_run_done) 1 = Some a"
    by (auto simp: status_of_def)
  have second: "status_of (store second_run_done) 1 = Some Failed"
    using a
    by (simp add: second_run_done_def background_analysis_def performAnalysis_def
          throwing_extractor_def analysis_failed_def no_update_throws_def
          status_of_markAnalysisAsFailed map_of_markAnalysisAsFailed)
  show ?thesis
    using first second
    by (simp add: twice once status_of_def example_world_def example_record_def
          reanalyzeCV_def no_changes_def findOne_owned_def updated_jobData_def
          falsy_field_def schema_validation_def Let_def)
qed

subsection \<open>Scores after validation\<close>

text \<open>
  Claim C2, as amended. Whenever the parse step returns, the overall score of the result
  is a number between 0 and 100: on an object, the score of the response clamped into
  that range when it is a number, and 75 when it is missing or not a number. The
  section scores are not validated: a truthy \<open>sections\<close> value of the response is in
  the result unchanged, and so is every score inside it.
\<close>

theorem validated_scores:
  "(parseAndValidateResponse JSON_parse response = Inr props \<longrightarrow>
      (\<exists>r. map_of props ''overallScore'' = Some (JNum (Fin r)) \<and> 0 \<le> r \<and> r \<le> 100)) \<and>
   (validateResponseStructure (JObj kvs) = Inr props' \<longrightarrow>
      map_of props' ''overallScore'' =
        Some (JNum (case map_of kvs ''overallScore'' of
                      Some (JNum x) \<Rightarrow> Math_max (Fin 0) (Math_min (Fin 100) x)
                    | _ \<Rightarrow> Fin 75))) \<and>
   (validateResponseStructure (JObj kvs) = Inr props' \<and>
    map_of kvs ''sections'' = Some v \<and> truthy v \<longrightarrow>
      map_of props' ''sections'' = Some v \<and>
      section_score props' name = section_score kvs name)"
proof -
  have "\<exists>r. map_of props ''overallScore'' = Some (JNum (Fin r)) \<and> 0 \<le> r \<and> r \<le> 100"
    if ok: "parseAndValidateResponse JSON_parse response = Inr props"
  proof -
    from ok obtain parsed where "validateResponseStructure parsed = Inr props"
      by (auto simp: parseAndValidateResponse_def parse_step_def Let_def
               split: option.splits if_splits sum.splits prod.splits)
    then show ?thesis by (rule validate_overallScore)
  qed
  moreover have "map_of props' ''sections'' = Some v \<and>
                 section_score props' name = section_score kvs name"
    if kept: "validateResponseStructure (JObj kvs) = Inr props'"
             "map_of kvs ''sections'' = Some v" "truthy v"
    using validate_sections_kept[OF kept] kept(2) by (simp add: section_score_def)
  ultimately show ?thesis using validate_overallScore_value[of kvs props'] by blast
qed

theorem validated_scores_witness:
  "parseAndValidateResponse (JSON_parse_of [(out_of_range_text, JObj out_of_range_props)])
      \<lparr> choices = [Some out_of_range_text], total_tokens = None \<rparr>
     = Inr [(''overallScore'', JNum (Fin 100)),
            (''sections'', JObj [(''atsCompatibility'', JObj [(''score'', JNum (Fin 150))])]),
            (''summary'', default_summary),
            (''recommendations'', JArr []),
            (''jobMatching'', JObj []),
            (''marketInsights'', JObj [])] \<and>
   validateResponseStructure (JObj out_of_range_props)
     = Inr [(''overallScore'', JNum (Fin 100)),
            (''sections'', JObj [(''atsCompatibility'', JObj [(''score'', JNum (Fin 150))])]),
            (''summary'', default_summary),
            (''recommendations'', JArr []),
            (''jobMatching'', JObj []),
            (''marketInsights'', JObj [])] \<and>
   map_of out_of_range_props ''overallScore'' = Some (JNum (Fin 150)) \<and>
   Math_max (Fin 0) (Math_min (Fin 100) (Fin 150)) = Fin 100 \<and>
   map_of out_of_range_props ''sections''
     = Some (JObj [(''atsCompatibility'', JObj [(''score'', JNum (Fin 150))])]) \<and>
   truthy (JObj [(''atsCompatibility'', JObj [(''score'', JNum (Fin 150))])]) \<and>
   section_score
       [(''overallScore'', JNum (Fin 100)),
        (''sections'', JObj [(''atsCompatibility'', JObj [(''score'', JNum (Fin 150))])]),
        (''summary'', default_summary),
        (''recommendations'', JArr []),
        (''jobMatching'', JObj []),
        (''marketInsights'', JObj [])] ''atsCompatibility''
     = section_score out_of_range_props ''atsCompatibility''"
proof -
  have v: "validateResponseStructure (JObj out_of_range_props)
     = Inr [(''overallScore'', JNum (Fin 100)),
            (''sections'', JObj [(''atsCompatibility'', JObj [(''score'', JNum (Fin 150))])]),
            (''summary'', default_summary),
            (''recommendations'', JArr []),
            (''jobMatching'', JObj []),
            (''marketInsights'', JObj [])]"
    by (simp add: out_of_range_props_def validateResponseStructure_def fill_defaults_def
          clamp_overallScore_def default_if_falsy_def Math_max_def Math_min_def)
  have run: "parseAndValidateResponse
      (JSON_parse_of [(out_of_range_text, JObj out_of_range_props)])
      \<lparr> choices = [Some out_of_range_text], total_tokens = None \<rparr>
     = Inr [(''overallScore'', JNum (Fin 100)),
            (''sections'', JObj [(''atsCompatibility'', JObj [(''score'', JNum (Fin 150))])]),
            (''summary'', default_summary),
            (''recommendations'', JArr []),
            (''jobMatching'', JObj []),
            (''marketInsights'', JObj [])]"
    by (simp add: parseAndValidateResponse_def parse_step_def first_content_def JSON_parse_of_def
          v out_of_range_text_def)
  have s: "map_of out_of_range_props ''sections''
     = Some (JObj [(''atsCompatibility'', JObj [(''score'', JNum (Fin 150))])])"
    by (simp add: out_of_range_props_def)
  have o: "map_of out_of_range_props ''overallScore'' = Some (JNum (Fin 150))"
          "Math_max (Fin 0) (Math_min (Fin 100) (Fin 150)) = Fin 100"
    by (simp_all add: out_of_range_props_def Math_max_def Math_min_def)
  show ?thesis
    using run v s o
      validated_scores[of "JSON_parse_of [(out_of_range_text, JObj out_of_range_props)]"
        "\<lparr> choices = [Some out_of_range_text], total_tokens = None \<rparr>"
        "[(''overallScore'', JNum (Fin 100)),
          (''sections'', JObj [(''atsCompatibility'', JObj [(''score'', JNum (Fin 150))])]),
          (''summary'', default_summary),
          (''recommendations'', JArr []),
          (''jobMatching'', JObj []),
          (''marketInsights'', JObj [])]"
        out_of_range_props
        "[(''overallScore'', JNum (Fin 100)),
          (''sections'', JObj [(''atsCompatibility'', JObj [(''score'', JNum (Fin 150))])]),
          (''summary'', default_summary),
          (''recommendations'', JArr []),
          (''jobMatching'', JObj []),
          (''marketInsights'', JObj [])]"
        "JObj [(''atsCompatibility'', JObj [(''score'', JNum (Fin 150))])]"
        "''atsCompatibility''"]
    by simp
qed

text \<open>
  Against C2 as stated: the response gives 150 as the score of the section
  \<open>atsCompatibility\<close>, and after validation the score of that section is still 150.
\<close>

theorem section_score_not_clamped:
  "map_sum id (\<lambda>props. section_score props ''atsCompatibility'')
     (validateResponseStructure (JObj out_of_range_props))
   = Inr (Some (JNum (Fin 150)))"
  by (simp add: validateResponseStructure_def fill_defaults_def clamp_overallScore_def
        default_if_falsy_def section_score_def out_of_range_props_def
        Math_max_def Math_min_def default_summary_def)

subsection \<open>Upload\<close>

text \<open>
  Claim C3, as amended. When the upload is answered with 202, the record it has created
  is in status processing, the response reports that status, and the analysis has been
  started for that record, which did not exist before.
\<close>

theorem upload_creates_processing_record:
  assumes "uploadAndAnalyzeCV save_error new_id now w req = (resp, w', started)"
    and "http_status resp = 202"
  shows "status_of (store w') new_id = Some Processing \<and>
         payload resp = UploadAccepted new_id Processing ''2-3 minutes'' \<and>
         started = Some new_id \<and> status_of (store w) new_id = None"
  using assms
  by (auto simp: uploadAndAnalyzeCV_def Let_def status_of_def new_upload_document_def
           map_add_def split: if_splits option.splits)

theorem upload_creates_processing_record_witness:
  "http_status (fst (uploadAndAnalyzeCV schema_validation 3 30 example_world example_upload))
     = 202 \<and>
   status_of (store (fst (snd
     (uploadAndAnalyzeCV schema_validation 3 30 example_world example_upload)))) 3
     = Some Processing \<and>
   snd (snd (uploadAndAnalyzeCV schema_validation 3 30 example_world example_upload)) = Some 3"
proof -
  have accepted:
    "http_status (fst (uploadAndAnalyzeCV schema_validation 3 30 example_world example_upload))
       = 202"
    by (simp add: uploadAndAnalyzeCV_def example_world_def example_upload_def falsy_field_def
          field_value_def new_upload_document_def schema_validation_def trim_def is_space_def
          Let_def)
  show ?thesis
    using accepted
      upload_creates_processing_record[of schema_validation 3 30 example_world example_upload
        "fst (uploadAndAnalyzeCV schema_validation 3 30 example_world example_upload)"
        "fst (snd (uploadAndAnalyzeCV schema_validation 3 30 example_world example_upload))"
        "snd (snd (uploadAndAnalyzeCV schema_validation 3 30 example_world example_upload))"]
    by simp
qed

text \<open>
  Against C3 as stated: a valid upload is answered with 202, and the record it created
  is in status processing, not pending.
\<close>

theorem upload_record_not_pending:
  "http_status (fst (uploadAndAnalyzeCV schema_validation 3 30 example_world example_upload))
     = 202 \<and>
   status_of (store (fst (snd
     (uploadAndAnalyzeCV schema_validation 3 30 example_world example_upload)))) 3
     \<noteq> Some Pending"
  by (simp add: uploadAndAnalyzeCV_def example_world_def example_upload_def falsy_field_def
        field_value_def new_upload_document_def schema_validation_def trim_def is_space_def
        status_of_def Let_def)

subsection \<open>Terminal writes\<close>

text \<open>
  Claim C4, as amended. The terminal writes are unconditional: after mark-failed on a
  completed record the status is failed, after mark-completed on a failed record it is
  completed, and the controller's \<open>markAnalysisAsFailed\<close>, when the store applies its
  update, sets failed on any stored record. Repeating the same write changes nothing
  more: a second mark-completed leaves the document of the first, a second mark-failed
  leaves the status failed, and a second \<open>markAnalysisAsFailed\<close> with the same message,
  applied or refused, leaves the collection of the first. A refused update leaves the
  collection as it was.
\<close>

theorem terminal_writes_overwrite:
  "processingStatus (markAsFailed now2 e (markAsCompleted now1 a)) = Failed \<and>
   processingStatus (markAsCompleted now2 (markAsFailed now1 e a)) = Completed \<and>
   markAsCompleted now2 (markAsCompleted now1 a) = markAsCompleted now1 a \<and>
   processingStatus (markAsFailed now2 e2 (markAsFailed now1 e a)) = Failed \<and>
   status_of (markAnalysisAsFailed False i m st) i = map_option (\<lambda>_. Failed) (map_of st i) \<and>
   markAnalysisAsFailed refused i m (markAnalysisAsFailed False i m st) =
     markAnalysisAsFailed False i m st \<and>
   markAnalysisAsFailed True i m st = st"
  by (simp add: markAsCompleted_twice markAnalysisAsFailed_again status_of_markAnalysisAsFailed)
     (simp add: markAsCompleted_def markAsFailed_def markAnalysisAsFailed_def)

text \<open>
  Against C4 as stated: a record is marked completed and then marked failed, and it is
  failed; the completed record 1 of the collection is failed after \<open>markAnalysisAsFailed\<close>.
\<close>

theorem failed_overwrites_completed:
  "processingStatus (markAsCompleted 100 example_record) = Completed \<and>
   processingStatus
     (markAsFailed 200 (PlainError ''timeout'') (markAsCompleted 100 example_record)) = Failed \<and>
   status_of (store example_world) 1 = Some Completed \<and>
   status_of (markAnalysisAsFailed False 1 ''timeout'' (store example_world)) 1 = Some Failed"
  by (simp add: markAsCompleted_def markAsFailed_def example_record_def example_world_def
        status_of_def markAnalysisAsFailed_def)

subsection \<open>Degraded parse\<close>

text \<open>
  Claim C5, as amended. When the content is not empty, does not parse, and its match
  from the first opening to the last closing brace, if there is one, does not parse
  either, the parse step returns, on the fallback path, the fallback structure: the
  score 75, the generic summary with the first 500 characters of the content, the
  content as the one section, and a recommendation list that holds one generic
  recommendation of medium priority.
\<close>

theorem degraded_parse_result:
  assumes "first_content response = Some content" and "content \<noteq> []"
    and "JSON_parse content = None"
    and "\<forall>m. jsonMatch content = Some m \<longrightarrow> JSON_parse m = None"
  shows "parseAndValidateResponse JSON_parse response =
     Inr [(''overallScore'', JNum (Fin 75)),
          (''summary'', JObj
             [(''strengths'', JStr ''CV analysis completed''),
              (''areasOfImprovement'', JStr ''Please review the detailed analysis''),
              (''keyFindings'', JStr (take 500 content @ ''...''))]),
          (''sections'', JObj [(''analysis'', JStr content)]),
          (''recommendations'', JArr
             [JObj [(''priority'', JStr ''medium''),
                    (''category'', JStr ''general''),
                    (''suggestion'', JStr ''Please review the detailed analysis provided''),
                    (''impact'', JStr ''General improvements recommended'')]]),
          (''jobMatching'', JObj [(''compatibility'', JNum (Fin 75))]),
          (''marketInsights'',
             JObj [(''analysis'', JStr ''Market analysis included in content'')])] \<and>
   parse_step JSON_parse response =
     map_sum id (Pair Fallback) (parseAndValidateResponse JSON_parse response)"
proof -
  have "extractJsonFromContent JSON_parse content = (Fallback, createFallbackStructure content)"
    using assms(4) by (auto simp: extractJsonFromContent_def split: option.splits)
  then show ?thesis
    using assms(1-3) by (simp add: parseAndValidateResponse_def parse_step_def validate_fallback)
qed

theorem degraded_parse_result_witness:
  "first_content \<lparr> choices = [Some ''Result: { score high }''], total_tokens = None \<rparr>
     = Some ''Result: { score high }'' \<and>
   jsonMatch ''Result: { score high }'' = Some ''{ score high }'' \<and>
   JSON_parse_of [] ''Result: { score high }'' = None \<and>
   JSON_parse_of [] ''{ score high }'' = None \<and>
   map_sum id (\<lambda>props. map_of props ''overallScore'')
     (parseAndValidateResponse (JSON_parse_of [])
        \<lparr> choices = [Some ''Result: { score high }''], total_tokens = None \<rparr>)
     = Inr (Some (JNum (Fin 75)))"
proof -
  have c: "first_content \<lparr> choices = [Some ''Result: { score high }''], total_tokens = None \<rparr>
             = Some ''Result: { score high }''"
    by (simp add: first_content_def)
  have n: "''Result: { score high }'' \<noteq> []" by simp
  have p: "JSON_parse_of [] ''Result: { score high }'' = None"
    by (simp add: JSON_parse_of_def)
  have m: "jsonMatch ''Result: { score high }'' = Some ''{ score high }''"
    by (simp add: jsonMatch_def)
  have e: "\<forall>m. jsonMatch ''Result: { score high }'' = Some m \<longrightarrow> JSON_parse_of [] m = None"
    by (simp add: JSON_parse_of_def)
  have q: "JSON_parse_of [] ''{ score high }'' = None"
    by (simp add: JSON_parse_of_def)
  show ?thesis
    using c m p q degraded_parse_result[OF c n p e] by simp
qed

text \<open>
  Against C5 as stated: the content is not JSON and has no brace, and the recommendation
  list of the result is not empty.
\<close>

theorem fallback_has_a_recommendation:
  "map_sum id (\<lambda>props. map_of props ''recommendations'')
     (parseAndValidateResponse (JSON_parse_of [])
        \<lparr> choices = [Some ''I am unable to analyse this document.''], total_tokens = None \<rparr>)
   = Inr (Some (JArr
       [JObj [(''priority'', JStr ''medium''),
              (''category'', JStr ''general''),
              (''suggestion'', JStr ''Please review the detailed analysis provided''),
              (''impact'', JStr ''General improvements recommended'')]]))"
  by (simp add: parseAndValidateResponse_def parse_step_def first_content_def JSON_parse_of_def
        extractJsonFromContent_def jsonMatch_def validate_fallback)

subsection \<open>Retry ceiling\<close>



subsection \<open>Ownership\<close>

text \<open>
  Claim C7. When a record is stored under an identifier and belongs to another user,
  fetching, reanalysing and deleting that identifier give the caller the same 404
  answer as an identifier under which nothing is stored, the world is left as it was
  and no analysis is started; and every record on a history page of the caller belongs
  to the caller.
\<close>

theorem ownership_isolation:
  assumes "map_of (store w) i = Some other" and "userId other \<noteq> uid"
    and "map_of (store w) j = None"
  shows "getAnalysisResults w uid i = not_found \<and> getAnalysisResults w uid j = not_found \<and>
         reanalyzeCV save_error w uid i body = (not_found, w, None) \<and>
         reanalyzeCV save_error w uid j body = (not_found, w, None) \<and>
         deleteAnalysis w uid i = (not_found, w) \<and>
         deleteAnalysis w uid j = (not_found, w) \<and>
         (\<forall>docs n. payload (getAnalysisHistory strictQuery w uid q) = HistoryPage docs n
             \<longrightarrow> (\<forall>(k, d) \<in> set docs. userId d = uid))"
proof -
  have f: "findOne_owned (store w) i uid = None" "findOne_owned (store w) j uid = None"
    using assms by (simp_all add: findOne_owned_def)
  have "\<forall>(k, d) \<in> set docs. userId d = uid"
    if pl: "payload (getAnalysisHistory strictQuery w uid q) = HistoryPage docs n" for docs n
  proof -
    obtain page limit where
      "paginate (history_filter strictQuery uid (q_status q)) page limit (store w) = (docs, n)"
      using pl by (auto simp: getAnalysisHistory_def Let_def split: prod.splits)
    then have "docs =
        fst (paginate (history_filter strictQuery uid (q_status q)) page limit (store w))"
      by simp
    then show ?thesis using history_page_of_caller by simp
  qed
  then show ?thesis
    using f by (simp add: getAnalysisResults_def reanalyzeCV_def deleteAnalysis_def)
qed

theorem ownership_isolation_witness:
  "map_of (store example_world) 5 = Some (example_record\<lparr> userId := 8, createdAt := 30 \<rparr>) \<and>
   userId (example_record\<lparr> userId := 8, createdAt := 30 \<rparr>) \<noteq> 7 \<and>
   map_of (store example_world) 9 = None \<and>
   getAnalysisResults example_world 7 5 = getAnalysisResults example_world 7 9 \<and>
   getAnalysisResults example_world 7 5 = not_found \<and>
   reanalyzeCV schema_validation example_world 7 5 no_changes = (not_found, example_world, None) \<and>
   deleteAnalysis example_world 7 5 = (not_found, example_world)"
proof -
  have other: "map_of (store example_world) 5
                 = Some (example_record\<lparr> userId := 8, createdAt := 30 \<rparr>)"
    by (simp add: example_world_def)
  have owner: "userId (example_record\<lparr> userId := 8, createdAt := 30 \<rparr>) \<noteq> 7" by simp
  have absent: "map_of (store example_world) 9 = None"
    by (simp add: example_world_def)
  show ?thesis
    using other absent
      ownership_isolation[OF other owner absent, of schema_validation no_changes]
    by simp
qed

subsection \<open>Deletion\<close>

text \<open>
  Claim C8, as amended. The delete operation of the owner is answered with 200, removes
  the record from the collection and the file of the record from the disk, and leaves
  every other record as it was.
\<close>

theorem delete_removes_record:
  assumes "findOne_owned (store w) analysisId uid = Some analysis"
    and "deleteAnalysis w uid analysisId = (resp, w')"
  shows "http_status resp = 200 \<and> map_of (store w') analysisId = None \<and>
         filePath analysis \<notin> files w' \<and>
         (\<forall>j. j \<noteq> analysisId \<longrightarrow> map_of (store w') j = map_of (store w) j)"
  using assms by (auto simp: deleteAnalysis_def map_of_filter_other)

theorem delete_removes_record_witness:
  "findOne_owned (store example_world) 1 7 = Some example_record \<and>
   http_status (fst (deleteAnalysis example_world 7 1)) = 200 \<and>
   map_of (store (snd (deleteAnalysis example_world 7 1))) 1 = None \<and>
   filePath example_record \<notin> files (snd (deleteAnalysis example_world 7 1)) \<and>
   map_of (store (snd (deleteAnalysis example_world 7 1))) 2 = map_of (store example_world) 2"
proof -
  have owned: "findOne_owned (store example_world) 1 7 = Some example_record"
    by (simp add: findOne_owned_def example_world_def example_record_def)
  show ?thesis
    using owned
      delete_removes_record[OF owned,
        of "fst (deleteAnalysis example_world 7 1)" "snd (deleteAnalysis example_world 7 1)"]
    by simp
qed

text \<open>
  Against C8 as stated: record 1 is stored, its owner deletes it, and no record is
  stored under 1 afterwards.
\<close>

theorem delete_does_not_retain_record:
  "map_of (store example_world) 1 = Some example_record \<and>
   http_status (fst (deleteAnalysis example_world 7 1)) = 200 \<and>
   map_of (store (snd (deleteAnalysis example_world 7 1))) 1 = None"
  by (simp add: deleteAnalysis_def example_world_def findOne_owned_def example_record_def)

subsection \<open>History filter\<close>

text \<open>
  Claim C9 fails on the code. User 7 has the completed record 1 and the failed record 2
  and asks for the history with \<open>status=completed\<close>. The filter names \<open>status\<close>, which is
  no path of the schema (the path is \<open>processingStatus\<close>): with \<open>strictQuery\<close> on, the page
  holds both records, the failed one first; with \<open>strictQuery\<close> off, the page is empty.
  The claim asks for record 1 alone.
\<close>

theorem history_status_filter_misses:
  "listed_statuses (getAnalysisHistory True example_world 7 completed_only)
     = [(2, Failed), (1, Completed)] \<and>
   listed_statuses (getAnalysisHistory False example_world 7 completed_only) = [] \<and>
   claimed_history example_world 7 ''completed'' = [(1, Completed)]"
  by (simp add: listed_statuses_def getAnalysisHistory_def paginate_def history_filter_def
        string_condition_def schema_string_path_def falsy_field_def field_value_def
        completed_only_def example_world_def example_record_def analysis_fields.truncate_def
        claimed_history_def Let_def)

subsection \<open>Empty content\<close>

text \<open>
  Claim C10. When the response has no content (no first choice, a missing or null
  content, or the empty string), the parse step throws the service error that wraps
  the empty-response error; and when the parse step returns on the fallback path, the
  content was a non-empty string that did not parse.
\<close>

theorem empty_content_raises:
  "(first_content response = None \<or> first_content response = Some [] \<longrightarrow>
      parseAndValidateResponse JSON_parse response =
        Inl (OpenAIServiceError ''Invalid response format from OpenAI''
               (Some (PlainError ''Empty response from OpenAI'')))) \<and>
   (parse_step JSON_parse response = Inr (Fallback, validated) \<longrightarrow>
      (\<exists>content. first_content response = Some content \<and> content \<noteq> [] \<and>
                 JSON_parse content = None))"
  by (auto simp: parseAndValidateResponse_def parse_step_def extractJsonFromContent_def Let_def
           split: option.splits if_splits sum.splits prod.splits)

theorem empty_content_raises_witness:
  "first_content \<lparr> choices = [Some []], total_tokens = None \<rparr> = Some [] \<and>
   parseAndValidateResponse (JSON_parse_of []) \<lparr> choices = [Some []], total_tokens = None \<rparr> =
     Inl (OpenAIServiceError ''Invalid response format from OpenAI''
            (Some (PlainError ''Empty response from OpenAI''))) \<and>
   first_content \<lparr> choices = [], total_tokens = None \<rparr> = None \<and>
   parseAndValidateResponse (JSON_parse_of []) \<lparr> choices = [], total_tokens = None \<rparr> =
     Inl (OpenAIServiceError ''Invalid response format from OpenAI''
            (Some (PlainError ''Empty response from OpenAI''))) \<and>
   (\<exists>validated. parse_step (JSON_parse_of [])
        \<lparr> choices = [Some ''not json''], total_tokens = None \<rparr> = Inr (Fallback, validated)) \<and>
   (\<exists>content. first_content \<lparr> choices = [Some ''not json''], total_tokens = None \<rparr>
                 = Some content \<and> content \<noteq> [] \<and> JSON_parse_of [] content = None)"
proof -
  have empty: "first_content \<lparr> choices = [Some []], total_tokens = None \<rparr> = Some []"
    and none: "first_content \<lparr> choices = [], total_tokens = None \<rparr> = None"
    by (simp_all add: first_content_def)
  have fb: "parse_step (JSON_parse_of []) \<lparr> choices = [Some ''not json''], total_tokens = None \<rparr>
              = Inr (Fallback, snd (projr (parse_step (JSON_parse_of [])
                  \<lparr> choices = [Some ''not json''], total_tokens = None \<rparr>)))"
    by (simp add: parse_step_def first_content_def JSON_parse_of_def extractJsonFromContent_def
          jsonMatch_def validate_fallback)
  show ?thesis
    using empty none fb
      empty_content_raises[of "\<lparr> choices = [Some []], total_tokens = None \<rparr>" "JSON_parse_of []"]
      empty_content_raises[of "\<lparr> choices = [], total_tokens = None \<rparr>" "JSON_parse_of []"]
      empty_content_raises[of "\<lparr> choices = [Some ''not json''], total_tokens = None \<rparr>"
        "JSON_parse_of []"
        "snd (projr (parse_step (JSON_parse_of [])
                  \<lparr> choices = [Some ''not json''], total_tokens = None \<rparr>))"]
    by blast
qed

end
